theory Spec2Isabelle
  imports Main
begin

section \<open>Data records (fitbit.go, lines 15-45 and 180-214)\<close>

text \<open>
  The Go structs are records with the source's field names. A Go \<open>int\<close> field holds
  an \<open>int\<close> (the program does no arithmetic on it; the decoder checks the 64-bit range
  when it stores one). A \<open>float64\<close> field is modelled by the decimal literal it was read
  from: rounding to binary64 is outside the model, and the zero value is the literal 0.
\<close>

datatype float64 = Lit string

record Goals =
  ActiveMinutes :: int
  CaloriesOut :: int
  Distance :: float64
  Steps :: int

record Distance =
  Activity :: string
  Distance :: float64

record Summary =
  ActiveScore :: int
  ActivityCalories :: int
  CaloriesBMR :: int
  CaloriesOut :: int
  Distances :: "Distance list"
  FairlyActiveMinutes :: int
  LightlyActiveMinutes :: int
  MarginalCalories :: int
  SedentaryMinutes :: int
  Steps :: int
  VeryActiveMinutes :: int

record ActivitySummary =
  Goals :: Goals
  Summary :: Summary

record User =
  StrideLengthRunningType :: string
  Weight :: float64
  Age :: int
  FullName :: string
  Gender :: string
  GlucoseUnit :: string
  Country :: string
  StrideLengthWalking :: float64
  Avatar :: string
  EncodedID :: string
  StartDayOfWeek :: string
  Avatar150 :: string
  Corporate :: bool
  DateOfBirth :: string
  HeightUnit :: string
  Locale :: string
  MemberSince :: string
  OffsetFromUTCMillis :: int
  AverageDailySteps :: int
  Timezone :: string
  StrideLengthRunning :: float64
  WeightUnit :: string
  DistanceUnit :: string
  Height :: float64
  StrideLengthWalkingType :: string
  DisplayName :: string

record UserProfile =
  User :: User

text \<open>The zero values that \<open>var summary ActivitySummary\<close> and \<open>var profile UserProfile\<close> declare.\<close>

definition zero_float64 :: float64 where
  "zero_float64 = Lit ''0''"

definition zero_Goals :: Goals where
  "zero_Goals = \<lparr>Goals.ActiveMinutes = 0, Goals.CaloriesOut = 0,
     Goals.Distance = zero_float64, Goals.Steps = 0\<rparr>"

definition zero_Distance :: Distance where
  "zero_Distance = \<lparr>Activity = [], Distance.Distance = zero_float64\<rparr>"

definition zero_Summary :: Summary where
  "zero_Summary = \<lparr>ActiveScore = 0, ActivityCalories = 0, CaloriesBMR = 0,
     Summary.CaloriesOut = 0, Distances = [], FairlyActiveMinutes = 0,
     LightlyActiveMinutes = 0, MarginalCalories = 0, SedentaryMinutes = 0,
     Summary.Steps = 0, VeryActiveMinutes = 0\<rparr>"

definition zero_ActivitySummary :: ActivitySummary where
  "zero_ActivitySummary = \<lparr>Goals = zero_Goals, Summary = zero_Summary\<rparr>"

definition zero_User :: User where
  "zero_User = \<lparr>StrideLengthRunningType = [], Weight = zero_float64, Age = 0,
     FullName = [], Gender = [], GlucoseUnit = [], Country = [],
     StrideLengthWalking = zero_float64, Avatar = [], EncodedID = [],
     StartDayOfWeek = [], Avatar150 = [], Corporate = False, DateOfBirth = [],
     HeightUnit = [], Locale = [], MemberSince = [], OffsetFromUTCMillis = 0,
     AverageDailySteps = 0, Timezone = [], StrideLengthRunning = zero_float64,
     WeightUnit = [], DistanceUnit = [], Height = zero_float64,
     StrideLengthWalkingType = [], DisplayName = []\<rparr>"

definition zero_UserProfile :: UserProfile where
  "zero_UserProfile = \<lparr>User = zero_User\<rparr>"

section \<open>The values the program exchanges with its libraries\<close>

text \<open>
  A Go \<open>error\<close> value: its dynamic kind and its message. \<open>ErrorString\<close> is what
  \<open>errors.New\<close> builds; the other kinds are built by the libraries only.
\<close>

datatype error = UrlError string | JsonError string | NetError string | ErrorString string

definition errors_New :: "string \<Rightarrow> error" where
  "errors_New msg = ErrorString msg"

text \<open>
  A \<open>*url.URL\<close>. The program reads a URL only through its \<open>String()\<close> method
  (lines 101 and 112), so a URL is represented by that rendering.
\<close>

datatype url = Rendered string

fun url_String :: "url \<Rightarrow> string" where
  "url_String (Rendered s) = s"

text \<open>
  \<open>http.Header\<close> maps a canonical key to the list of its values, here as an
  association list with one entry per key. \<open>Add\<close> appends to the key's list, \<open>Values\<close>
  reads it (no entry: the empty list). \<open>User-Agent\<close> is already in canonical form.
\<close>

type_synonym Header = "(string \<times> string list) list"

fun Header_Add :: "Header \<Rightarrow> string \<Rightarrow> string \<Rightarrow> Header" where
  "Header_Add [] k v = [(k, [v])]"
| "Header_Add ((k', vs) # h) k v =
     (if k' = k then (k', vs @ [v]) # h else (k', vs) # Header_Add h k v)"

definition Header_Values :: "Header \<Rightarrow> string \<Rightarrow> string list" where
  "Header_Values h k = (case map_of h k of None \<Rightarrow> [] | Some vs \<Rightarrow> vs)"

text \<open>The fields of \<open>*http.Request\<close> and \<open>*http.Response\<close> that the program touches.\<close>

record Request =
  Method :: string
  URL :: url
  Header :: Header
  Body :: string

record Response =
  StatusCode :: int
  Body :: string

text \<open>
  The library calls the program makes, taken as parameters: every theorem below that
  is stated for an arbitrary \<open>lib\<close> holds whatever these calls return.
  \<^item> \<open>url_Parse\<close>: \<open>url.Parse\<close>;
  \<^item> \<open>json_Encode\<close>: \<open>json.NewEncoder(buf).Encode(body)\<close>, the bytes written to the
    fresh buffer, or the error;
  \<^item> \<open>http_NewRequest\<close>: \<open>http.NewRequest\<close> on a method, an address and the buffer;
  \<^item> \<open>json_Decode\<close>: \<open>json.NewDecoder(resp.Body).Decode(respStr)\<close>, from the body's
    bytes and the value the destination points to, to the value it points to afterwards
    and the error returned (\<open>None\<close> for \<open>nil\<close>);
  \<^item> \<open>fmt_GoSyntax\<close>: how \<open>fmt\<close> renders a response under the verb \<open>%#v\<close>.
  The payload type \<open>'p\<close> and the destination type \<open>'d\<close> stand for what the caller
  passes as \<open>interface{}\<close>.
\<close>

record ('p, 'd) stdlib =
  url_Parse :: "string \<Rightarrow> error + url"
  json_Encode :: "'p \<Rightarrow> error + string"
  http_NewRequest :: "string \<Rightarrow> string \<Rightarrow> string \<Rightarrow> error + Request"
  json_Decode :: "string \<Rightarrow> 'd \<Rightarrow> 'd \<times> error option"
  fmt_GoSyntax :: "Response \<Rightarrow> string"

section \<open>The client (fitbit.go, lines 47-84)\<close>

definition BASE_URL :: string where
  "BASE_URL = ''https://api.fitbit.com/1''"

definition USER_AGENT :: string where
  "USER_AGENT = ''go-fitbit-api:v0.0.1''"

text \<open>
  \<open>baseURL, _ = url.Parse(BASE_URL)\<close>: the constant parses, and \<open>net/url\<close> renders the
  result back as the same text.
\<close>

definition baseURL :: url where
  "baseURL = Rendered BASE_URL"

text \<open>
  The field \<open>Client\<close> is the \<open>*http.Client\<close>, modelled by what its method \<open>Do\<close>
  answers to a request: the transport's error, or the response received. Both fields
  are non-nil, as in every client \<open>NewClient\<close> builds.
\<close>

record Client =
  Client :: "Request \<Rightarrow> error + Response"
  BaseUrl :: url

text \<open>
  \<open>NewClient\<close>: the argument is the behaviour of the client that
  \<open>c.cfg.Client(context.Background(), tok)\<close> returns.
\<close>

definition NewClient :: "(Request \<Rightarrow> error + Response) \<Rightarrow> Client" where
  "NewClient oauth2_client = \<lparr>Client = oauth2_client, BaseUrl = baseURL\<rparr>"

section \<open>The request builder (fitbit.go, lines 88-121)\<close>

text \<open>
  \<open>NewRequest\<close> returns \<open>(nil, err)\<close> or \<open>(req, nil)\<close> on every path, so its result is
  a sum. The body is \<open>None\<close> for a nil \<open>interface{}\<close>.
\<close>

definition NewRequest ::
  "('p, 'd) stdlib \<Rightarrow> Client \<Rightarrow> string \<Rightarrow> string \<Rightarrow> 'p option \<Rightarrow> error + Request" where
  "NewRequest lib c method urlStr body =
     (case url_Parse lib urlStr of
        Inl err \<Rightarrow> Inl err
      | Inr _ \<Rightarrow>
          (case url_Parse lib (url_String (BaseUrl c) @ urlStr) of
             Inl err \<Rightarrow> Inl err
           | Inr resolvedUrl \<Rightarrow>
               (case (case body of None \<Rightarrow> Inr [] | Some b \<Rightarrow> json_Encode lib b) of
                  Inl err \<Rightarrow> Inl err
                | Inr buf \<Rightarrow>
                    (case http_NewRequest lib method (url_String resolvedUrl) buf of
                       Inl err \<Rightarrow> Inl err
                     | Inr req \<Rightarrow>
                         Inr (req\<lparr>Header := Header_Add (Header req) ''User-Agent'' USER_AGENT\<rparr>)))))"

section \<open>The request executor (fitbit.go, lines 125-141)\<close>

text \<open>
  What a call does to the body of the response it received, in order: the decoder
  reading it, and \<open>Close\<close>.
\<close>

datatype event = BodyDecode | BodyClose

text \<open>
  The outcome of \<open>Do\<close>: the two values returned (\<open>None\<close> for \<open>nil\<close>), the value the
  destination points to when the call returns (\<open>None\<close> for a nil destination), and the
  events on the response body.
\<close>

record 'd outcome =
  ret_resp :: "Response option"
  ret_err :: "error option"
  dest :: "'d option"
  trace :: "event list"

text \<open>
  The deferred \<open>resp.Body.Close()\<close> of line 130 runs last on every path that passes
  that line, after the returned values have been computed.
\<close>

definition Do :: "('p, 'd) stdlib \<Rightarrow> Client \<Rightarrow> Request \<Rightarrow> 'd option \<Rightarrow> 'd outcome" where
  "Do lib c req respStr =
     (case Client c req of
        Inl e \<Rightarrow> \<lparr>ret_resp = None, ret_err = Some e, dest = respStr, trace = []\<rparr>
      | Inr r \<Rightarrow>
          if StatusCode r > 299 \<or> StatusCode r < 200 then
            \<lparr>ret_resp = None,
             ret_err = Some (errors_New (''http request failed, resp: '' @ fmt_GoSyntax lib r)),
             dest = respStr, trace = [BodyClose]\<rparr>
          else
            (case respStr of
               None \<Rightarrow> \<lparr>ret_resp = Some r, ret_err = None, dest = None, trace = [BodyClose]\<rparr>
             | Some d \<Rightarrow>
                 (case json_Decode lib (Response.Body r) d of
                    (d', e) \<Rightarrow>
                      \<lparr>ret_resp = Some r, ret_err = e, dest = Some d', trace = [BodyDecode, BodyClose]\<rparr>)))"

section \<open>The resource accessors (fitbit.go, lines 144-178)\<close>

text \<open>
  An accessor returns its record and its error; the third component is the events on
  the body of the response, if one was received. The record returned is the variable
  \<open>summary\<close> (\<open>profile\<close>) as \<open>Do\<close> left it through the pointer. On the path without an
  error the accessor calls \<open>resp.Body.Close()\<close> itself (lines 159 and 175).
\<close>

definition ActivitySummaryForDay ::
  "('p, ActivitySummary) stdlib \<Rightarrow> Client \<Rightarrow> string \<Rightarrow> ActivitySummary \<times> error option \<times> event list" where
  "ActivitySummaryForDay lib c dayString =
     (let summary = zero_ActivitySummary in
      case NewRequest lib c ''GET'' (''/user/-/activities/date/'' @ dayString @ ''.json'') None of
        Inl e \<Rightarrow> (summary, Some e, [])
      | Inr req \<Rightarrow>
          (let out = Do lib c req (Some summary);
               summary = (case dest out of Some s \<Rightarrow> s | None \<Rightarrow> summary)
           in case ret_err out of
                Some e \<Rightarrow> (summary, Some e, trace out)
              | None \<Rightarrow> (summary, None, trace out @ [BodyClose])))"

definition UserProfile ::
  "('p, UserProfile) stdlib \<Rightarrow> Client \<Rightarrow> UserProfile \<times> error option \<times> event list" where
  "UserProfile lib c =
     (let profile = zero_UserProfile in
      case NewRequest lib c ''GET'' ''/user/-/profile.json'' None of
        Inl e \<Rightarrow> (profile, Some e, [])
      | Inr req \<Rightarrow>
          (let out = Do lib c req (Some profile);
               profile = (case dest out of Some p \<Rightarrow> p | None \<Rightarrow> profile)
           in case ret_err out of
                Some e \<Rightarrow> (profile, Some e, trace out)
              | None \<Rightarrow> (profile, None, trace out @ [BodyClose])))"

section \<open>A model of the library calls, for running the program\<close>

text \<open>
  The theorems about \<open>NewRequest\<close>, \<open>Do\<close> and the accessors hold for every \<open>lib\<close>.
  To run the program on a concrete input the library calls need values; this section
  models them as the Go standard library has them, on ASCII text. It is used where the
  program is evaluated at a concrete input, and in the theorem on the addresses that
  the request builder produces, whose hypotheses are stated on these functions.
\<close>

subsection \<open>Characters and quoting\<close>

definition isCTL :: "char \<Rightarrow> bool" where
  "isCTL c \<longleftrightarrow> (of_char c :: nat) < 32 \<or> (of_char c :: nat) = 127"

definition isDigit :: "char \<Rightarrow> bool" where
  "isDigit c \<longleftrightarrow> c \<in> set ''0123456789''"

definition isAlpha :: "char \<Rightarrow> bool" where
  "isAlpha c \<longleftrightarrow> c \<in> set ''abcdefghijklmnopqrstuvwxyz'' \<or> c \<in> set ''ABCDEFGHIJKLMNOPQRSTUVWXYZ''"

definition to_lower :: "char \<Rightarrow> char" where
  "to_lower c =
     (if (65 :: nat) \<le> of_char c \<and> (of_char c :: nat) \<le> 90 then char_of (of_char c + (32 :: nat)) else c)"

definition ishex :: "char \<Rightarrow> bool" where
  "ishex c \<longleftrightarrow> isDigit c \<or> c \<in> set ''abcdef'' \<or> c \<in> set ''ABCDEF''"

definition unhex :: "char \<Rightarrow> nat" where
  "unhex c =
     (if isDigit c then of_char c - 48
      else if c \<in> set ''abcdef'' then of_char c - 97 + 10
      else if c \<in> set ''ABCDEF'' then of_char c - 65 + 10
      else 0)"

definition upperhex :: "nat \<Rightarrow> char" where
  "upperhex n = ''0123456789ABCDEF'' ! (n mod 16)"

definition lowerhex :: "nat \<Rightarrow> char" where
  "lowerhex n = ''0123456789abcdef'' ! (n mod 16)"

text \<open>
  \<open>strconv.Quote\<close>, which the verb \<open>%q\<close> applies, on ASCII text: a double quote and a
  backslash get a backslash, a printable character stands for itself, and any other
  byte is written as a short escape or as \<open>\x\<close> with two hexadecimal digits.
\<close>

definition quote_byte :: "char \<Rightarrow> string" where
  "quote_byte c =
     (let n = (of_char c :: nat) in
      if c = CHR 0x22 \<or> c = CHR 0x5C then [CHR 0x5C, c]
      else if 32 \<le> n \<and> n < 127 then [c]
      else if n = 7 then [CHR 0x5C, CHR ''a'']
      else if n = 8 then [CHR 0x5C, CHR ''b'']
      else if n = 12 then [CHR 0x5C, CHR ''f'']
      else if n = 10 then [CHR 0x5C, CHR ''n'']
      else if n = 13 then [CHR 0x5C, CHR ''r'']
      else if n = 9 then [CHR 0x5C, CHR ''t'']
      else if n = 11 then [CHR 0x5C, CHR ''v'']
      else [CHR 0x5C, CHR ''x'', lowerhex (n div 16), lowerhex (n mod 16)])"

definition Quote :: "string \<Rightarrow> string" where
  "Quote s = [CHR 0x22] @ concat (map quote_byte s) @ [CHR 0x22]"

subsection \<open>\<open>net/url\<close>: escaping\<close>

text \<open>
  The model follows \<open>url.Parse\<close> and \<open>URL.String\<close> of a current Go release, function
  by function, for every address whose host is not an IP literal in brackets (such a
  host is outside the model and is refused). Only the four escaping modes that these two
  functions reach on such addresses are modelled. The inner functions return the
  message of their error; \<open>Parse\<close> wraps it.
\<close>

datatype encoding = encodePath | encodeUserPassword | encodeHost | encodeFragment

definition shouldEscape :: "char \<Rightarrow> encoding \<Rightarrow> bool" where
  "shouldEscape c mode \<longleftrightarrow>
     (if isAlpha c \<or> isDigit c then False
      else if mode = encodeHost \<and> (c \<in> set ''!$&()*+,;=:[]<>'' \<or> c = CHR 0x27 \<or> c = CHR 0x22)
        then False
      else if c \<in> set ''-_.~'' then False
      else if c \<in> set ''$&+,/:;=?@'' \<and> mode = encodePath then c = CHR ''?''
      else if c \<in> set ''$&+,/:;=?@'' \<and> mode = encodeUserPassword then c \<in> set ''@/?:''
      else if c \<in> set ''$&+,/:;=?@'' \<and> mode = encodeFragment then False
      else if mode = encodeFragment \<and> c \<in> set ''!()*'' then False
      else True)"

definition url_escape :: "string \<Rightarrow> encoding \<Rightarrow> string" where
  "url_escape s mode =
     concat (map (\<lambda>c. if shouldEscape c mode
                       then [CHR ''%'', upperhex (of_char c div 16), upperhex (of_char c mod 16)]
                       else [c]) s)"

definition EscapeError :: "string \<Rightarrow> string" where
  "EscapeError s = ''invalid URL escape '' @ Quote s"

definition InvalidHostError :: "string \<Rightarrow> string" where
  "InvalidHostError s = ''invalid character '' @ Quote s @ '' in host name''"

text \<open>
  \<open>unescape\<close>: a percent sign wants two hexadecimal digits after it; in a host it may
  only stand for a byte above 127 or, as \<open>%25\<close>, for itself, and a host refuses the
  ASCII characters that \<open>shouldEscape\<close> would escape.
\<close>

fun url_unescape :: "string \<Rightarrow> encoding \<Rightarrow> string + string" where
  "url_unescape [] mode = Inr []"
| "url_unescape (c # cs) mode =
     (if c = CHR ''%'' then
        (case cs of
           h # l # rest \<Rightarrow>
             if \<not> (ishex h \<and> ishex l) then Inl (EscapeError [c, h, l])
             else if mode = encodeHost \<and> unhex h < 8 \<and> [h, l] \<noteq> ''25''
               then Inl (EscapeError [c, h, l])
             else
               (case url_unescape rest mode of
                  Inl e \<Rightarrow> Inl e
                | Inr s \<Rightarrow> Inr (char_of (16 * unhex h + unhex l) # s))
         | _ \<Rightarrow> Inl (EscapeError (c # cs)))
      else if mode = encodeHost \<and> (of_char c :: nat) < 128 \<and> shouldEscape c encodeHost
        then Inl (InvalidHostError [c])
      else (case url_unescape cs mode of Inl e \<Rightarrow> Inl e | Inr s \<Rightarrow> Inr (c # s)))"

definition validEncoded :: "string \<Rightarrow> encoding \<Rightarrow> bool" where
  "validEncoded s mode \<longleftrightarrow>
     list_all (\<lambda>c. c \<in> set ''!$&()*+,;=:@[]%'' \<or> c = CHR 0x27 \<or> \<not> shouldEscape c mode) s"

subsection \<open>\<open>net/url\<close>: parsing\<close>

text \<open>The fields of \<open>url.URL\<close>; \<open>u_User\<close> holds the user information as \<open>String\<close> writes it.\<close>

record URL_fields =
  u_Scheme :: string
  u_Opaque :: string
  u_User :: "string option"
  u_Host :: string
  u_Path :: string
  u_RawPath :: string
  u_OmitHost :: bool
  u_ForceQuery :: bool
  u_RawQuery :: string
  u_Fragment :: string
  u_RawFragment :: string

definition empty_URL :: URL_fields where
  "empty_URL = \<lparr>u_Scheme = [], u_Opaque = [], u_User = None, u_Host = [], u_Path = [],
     u_RawPath = [], u_OmitHost = False, u_ForceQuery = False, u_RawQuery = [],
     u_Fragment = [], u_RawFragment = []\<rparr>"

text \<open>\<open>strings.Cut\<close> at the first occurrence of a byte, and \<open>strings.LastIndex\<close> of a byte.\<close>

definition cut_before :: "char \<Rightarrow> string \<Rightarrow> string" where
  "cut_before c s = takeWhile (\<lambda>x. x \<noteq> c) s"

definition cut_after :: "char \<Rightarrow> string \<Rightarrow> string" where
  "cut_after c s = drop 1 (dropWhile (\<lambda>x. x \<noteq> c) s)"

definition last_index :: "char \<Rightarrow> string \<Rightarrow> int" where
  "last_index c s =
     (if c \<in> set s then int (length s) - 1 - int (length (takeWhile (\<lambda>x. x \<noteq> c) (rev s)))
      else - 1)"

text \<open>
  \<open>getScheme\<close>: the second argument is the whole text, the first the number of bytes
  already passed.
\<close>

fun getScheme_from :: "nat \<Rightarrow> string \<Rightarrow> string \<Rightarrow> string + string \<times> string" where
  "getScheme_from i rawURL [] = Inr ([], rawURL)"
| "getScheme_from i rawURL (c # cs) =
     (if isAlpha c then getScheme_from (Suc i) rawURL cs
      else if isDigit c \<or> c \<in> set ''+-.'' then
        (if i = 0 then Inr ([], rawURL) else getScheme_from (Suc i) rawURL cs)
      else if c = CHR '':'' then
        (if i = 0 then Inl ''missing protocol scheme'' else Inr (take i rawURL, cs))
      else Inr ([], rawURL))"

definition getScheme :: "string \<Rightarrow> string + string \<times> string" where
  "getScheme rawURL = getScheme_from 0 rawURL rawURL"

definition validOptionalPort :: "string \<Rightarrow> bool" where
  "validOptionalPort port = (case port of [] \<Rightarrow> True | c # ds \<Rightarrow> c = CHR '':'' \<and> list_all isDigit ds)"

definition parseHost :: "string \<Rightarrow> string + string" where
  "parseHost host =
     (if take 1 host = ''['' then Inl ''outside the model: IP literal''
      else if CHR '':'' \<in> set host
              \<and> \<not> validOptionalPort (drop (nat (last_index (CHR '':'') host)) host)
        then Inl (''invalid port '' @ Quote (drop (nat (last_index (CHR '':'') host)) host)
                  @ '' after host'')
      else url_unescape host encodeHost)"

definition validUserinfo :: "string \<Rightarrow> bool" where
  "validUserinfo s \<longleftrightarrow>
     list_all (\<lambda>c. isAlpha c \<or> isDigit c \<or> c \<in> set ''-._:~!$&()*+,;=%@'' \<or> c = CHR 0x27) s"

definition parseAuthority :: "string \<Rightarrow> string + string option \<times> string" where
  "parseAuthority authority =
     (let i = last_index (CHR ''@'') authority in
      case parseHost (if i < 0 then authority else drop (nat i + 1) authority) of
        Inl e \<Rightarrow> Inl e
      | Inr host \<Rightarrow>
          if i < 0 then Inr (None, host)
          else
            (let userinfo = take (nat i) authority in
             if \<not> validUserinfo userinfo then Inl ''net/url: invalid userinfo''
             else if CHR '':'' \<notin> set userinfo then
               (case url_unescape userinfo encodeUserPassword of
                  Inl e \<Rightarrow> Inl e
                | Inr name \<Rightarrow> Inr (Some (url_escape name encodeUserPassword), host))
             else
               (case url_unescape (cut_before (CHR '':'') userinfo) encodeUserPassword of
                  Inl e \<Rightarrow> Inl e
                | Inr name \<Rightarrow>
                    (case url_unescape (cut_after (CHR '':'') userinfo) encodeUserPassword of
                       Inl e \<Rightarrow> Inl e
                     | Inr password \<Rightarrow>
                         Inr (Some (url_escape name encodeUserPassword @ '':''
                                     @ url_escape password encodeUserPassword), host)))))"

definition setPath :: "URL_fields \<Rightarrow> string \<Rightarrow> string + URL_fields" where
  "setPath u p =
     (case url_unescape p encodePath of
        Inl e \<Rightarrow> Inl e
      | Inr path \<Rightarrow>
          Inr (u\<lparr>u_Path := path, u_RawPath := (if p = url_escape path encodePath then [] else p)\<rparr>))"

text \<open>
  The query is split off first: a lone question mark at the end forces an empty query,
  otherwise the text is cut at the first question mark.
\<close>

definition force_query :: "string \<Rightarrow> bool" where
  "force_query rest \<longleftrightarrow> rest \<noteq> [] \<and> last rest = CHR ''?'' \<and> count_list rest (CHR ''?'') = 1"

definition without_query :: "string \<Rightarrow> string" where
  "without_query rest = (if force_query rest then butlast rest else cut_before (CHR ''?'') rest)"

definition raw_query :: "string \<Rightarrow> string" where
  "raw_query rest = (if force_query rest then [] else cut_after (CHR ''?'') rest)"

text \<open>What \<open>parse\<close> does with the text after the scheme and before the query.\<close>

definition parse_rest :: "URL_fields \<Rightarrow> string \<Rightarrow> string + URL_fields" where
  "parse_rest u rest =
     (if take 1 rest \<noteq> ''/'' \<and> u_Scheme u \<noteq> [] then Inr (u\<lparr>u_Opaque := rest\<rparr>)
      else if take 1 rest \<noteq> ''/'' \<and> CHR '':'' \<in> set (cut_before (CHR ''/'') rest)
        then Inl ''first path segment in URL cannot contain colon''
      else if (u_Scheme u \<noteq> [] \<or> take 3 rest \<noteq> ''///'') \<and> take 2 rest = ''//'' then
        (case parseAuthority (cut_before (CHR ''/'') (drop 2 rest)) of
           Inl e \<Rightarrow> Inl e
         | Inr (user, host) \<Rightarrow>
             setPath (u\<lparr>u_User := user, u_Host := host\<rparr>)
               (dropWhile (\<lambda>x. x \<noteq> CHR ''/'') (drop 2 rest)))
      else setPath (u\<lparr>u_OmitHost := (u_Scheme u \<noteq> [] \<and> take 1 rest = ''/'')\<rparr>) rest)"

definition parse :: "string \<Rightarrow> string + URL_fields" where
  "parse rawURL =
     (if list_ex isCTL rawURL then Inl ''net/url: invalid control character in URL''
      else if rawURL = ''*'' then Inr (empty_URL\<lparr>u_Path := ''*''\<rparr>)
      else
        (case getScheme rawURL of
           Inl e \<Rightarrow> Inl e
         | Inr (scheme, rest) \<Rightarrow>
             parse_rest
               (empty_URL\<lparr>u_Scheme := map to_lower scheme, u_ForceQuery := force_query rest,
                  u_RawQuery := raw_query rest\<rparr>)
               (without_query rest)))"

text \<open>The error of \<open>url.Parse\<close>: the operation, the quoted text and the inner message.\<close>

definition url_Error :: "string \<Rightarrow> string \<Rightarrow> error" where
  "url_Error text msg = UrlError (''parse '' @ Quote text @ '': '' @ msg)"

definition Parse :: "string \<Rightarrow> error + URL_fields" where
  "Parse rawURL =
     (case parse (cut_before (CHR ''#'') rawURL) of
        Inl e \<Rightarrow> Inl (url_Error (cut_before (CHR ''#'') rawURL) e)
      | Inr u \<Rightarrow>
          if cut_after (CHR ''#'') rawURL = [] then Inr u
          else
            (case url_unescape (cut_after (CHR ''#'') rawURL) encodeFragment of
               Inl e \<Rightarrow> Inl (url_Error rawURL e)
             | Inr frag \<Rightarrow>
                 Inr (u\<lparr>u_Fragment := frag,
                        u_RawFragment :=
                          (if cut_after (CHR ''#'') rawURL = url_escape frag encodeFragment then []
                           else cut_after (CHR ''#'') rawURL)\<rparr>)))"

subsection \<open>\<open>net/url\<close>: rendering\<close>

definition EscapedPath :: "URL_fields \<Rightarrow> string" where
  "EscapedPath u =
     (if u_RawPath u \<noteq> [] \<and> validEncoded (u_RawPath u) encodePath
          \<and> url_unescape (u_RawPath u) encodePath = Inr (u_Path u)
      then u_RawPath u
      else if u_Path u = ''*'' then ''*''
      else url_escape (u_Path u) encodePath)"

definition EscapedFragment :: "URL_fields \<Rightarrow> string" where
  "EscapedFragment u =
     (if u_RawFragment u \<noteq> [] \<and> validEncoded (u_RawFragment u) encodeFragment
          \<and> url_unescape (u_RawFragment u) encodeFragment = Inr (u_Fragment u)
      then u_RawFragment u
      else url_escape (u_Fragment u) encodeFragment)"

text \<open>The part of \<open>String\<close> before the path: the scheme and the authority.\<close>

definition String_prefix :: "URL_fields \<Rightarrow> string" where
  "String_prefix u =
     (if u_Scheme u \<noteq> [] then u_Scheme u @ '':'' else [])
     @ (if (u_Scheme u \<noteq> [] \<or> u_Host u \<noteq> [] \<or> u_User u \<noteq> None)
           \<and> \<not> (u_OmitHost u \<and> u_Host u = [] \<and> u_User u = None)
        then (if u_Host u \<noteq> [] \<or> u_Path u \<noteq> [] \<or> u_User u \<noteq> None then ''//'' else [])
             @ (case u_User u of None \<Rightarrow> [] | Some ui \<Rightarrow> ui @ ''@'')
             @ (if u_Host u \<noteq> [] then url_escape (u_Host u) encodeHost else [])
        else [])"

definition String_path :: "URL_fields \<Rightarrow> string" where
  "String_path u =
     (let path = EscapedPath u;
          b = String_prefix u
               @ (if path \<noteq> [] \<and> take 1 path \<noteq> ''/'' \<and> u_Host u \<noteq> [] then ''/'' else [])
      in (if b = [] \<and> CHR '':'' \<in> set (cut_before (CHR ''/'') path) then ''./'' else b) @ path)"

definition String :: "URL_fields \<Rightarrow> string" where
  "String u =
     (if u_Opaque u \<noteq> [] then
        (if u_Scheme u \<noteq> [] then u_Scheme u @ '':'' else []) @ u_Opaque u
      else String_path u)
     @ (if u_ForceQuery u \<or> u_RawQuery u \<noteq> [] then ''?'' @ u_RawQuery u else [])
     @ (if u_Fragment u \<noteq> [] then ''#'' @ EscapedFragment u else [])"

text \<open>\<open>url.Parse\<close> as the program sees it: the parsed address, held as its rendering.\<close>

definition go_url_Parse :: "string \<Rightarrow> error + url" where
  "go_url_Parse rawURL =
     (case Parse rawURL of Inl e \<Rightarrow> Inl e | Inr u \<Rightarrow> Inr (Rendered (String u)))"

subsection \<open>\<open>net/http\<close>\<close>

text \<open>
  \<open>http.NewRequest\<close> replaces an empty method by \<open>GET\<close>, refuses a method that is not
  a token of RFC 7230 (\<open>validMethod\<close>), parses the address, drops an empty port from
  its host and returns a request with that address, an empty header and the buffer as
  its body.
\<close>

definition isTokenRune :: "char \<Rightarrow> bool" where
  "isTokenRune c \<longleftrightarrow>
     isAlpha c \<or> isDigit c \<or> c \<in> set ''!#$%&*+-.^_|~'' \<or> c = CHR 0x27 \<or> c = CHR 0x60"

definition validMethod :: "string \<Rightarrow> bool" where
  "validMethod method \<longleftrightarrow> method \<noteq> [] \<and> list_all isTokenRune method"

definition removeEmptyPort :: "string \<Rightarrow> string" where
  "removeEmptyPort host =
     (if last_index (CHR '':'') host > last_index (CHR '']'') host \<and> host \<noteq> []
          \<and> last host = CHR '':''
      then butlast host else host)"

definition go_http_NewRequest :: "string \<Rightarrow> string \<Rightarrow> string \<Rightarrow> error + Request" where
  "go_http_NewRequest method addr body =
     (let method = (if method = [] then ''GET'' else method) in
      if \<not> validMethod method then
        Inl (ErrorString (''net/http: invalid method '' @ Quote method))
      else
        (case Parse addr of
           Inl e \<Rightarrow> Inl e
         | Inr u \<Rightarrow>
             Inr \<lparr>Method = method,
                  URL = Rendered (String (u\<lparr>u_Host := removeEmptyPort (u_Host u)\<rparr>)),
                  Header = [], Request.Body = body\<rparr>))"

subsection \<open>\<open>fmt\<close> and the JSON encoder\<close>

definition digit_char :: "nat \<Rightarrow> char" where
  "digit_char n = ''0123456789'' ! (n mod 10)"

fun itoa_nat :: "nat \<Rightarrow> string" where
  "itoa_nat n =
     (if n < 10 then [digit_char n] else itoa_nat (n div 10) @ [digit_char (n mod 10)])"

definition itoa :: "int \<Rightarrow> string" where
  "itoa i = (if i < 0 then CHR ''-'' # itoa_nat (nat (- i)) else itoa_nat (nat i))"

text \<open>
  The \<open>%#v\<close> text of a response lists every field of \<open>http.Response\<close>, with pointer
  values that differ from run to run: it is not a function of the two fields modelled.
  The library model leaves the rendering unspecified, and no statement below gives the
  text of a message built from it.
\<close>

definition go_fmt_GoSyntax :: "Response \<Rightarrow> string" where
  "go_fmt_GoSyntax = undefined"

text \<open>
  Payloads for the encoder: an integer, which \<open>Encode\<close> writes in decimal followed by a
  newline, and a channel, which \<open>encoding/json\<close> cannot serialise
  (\<open>UnsupportedTypeError\<close>).
\<close>

datatype payload = GoInt int | GoChan

fun go_json_Encode :: "payload \<Rightarrow> error + string" where
  "go_json_Encode (GoInt i) = Inr (itoa i @ [CHR 0x0A])"
| "go_json_Encode GoChan = Inl (JsonError ''json: unsupported type: chan int'')"

subsection \<open>The JSON decoder: reading a value\<close>

text \<open>
  A JSON value as \<open>encoding/json\<close> scans it (RFC 8259); a number keeps its literal.
  The model reads ASCII text; the escape \<open>\u\<close> is not modelled (text with one is
  refused) and no input below has one.
\<close>

datatype json =
    JNull
  | JBool bool
  | JNumber string
  | JString string
  | JArray "json list"
  | JObject "(string \<times> json) list"

definition SyntaxError :: error where
  "SyntaxError = JsonError ''SyntaxError''"

definition ErrUnexpectedEOF :: error where
  "ErrUnexpectedEOF = ErrorString ''unexpected EOF''"

definition EOF :: error where
  "EOF = ErrorString ''EOF''"

text \<open>The scanner fails with \<open>unexpected EOF\<close> where the text ends, with a syntax error at a wrong byte.\<close>

definition fail_at :: "string \<Rightarrow> error" where
  "fail_at cs = (if cs = [] then ErrUnexpectedEOF else SyntaxError)"

definition isSpace :: "char \<Rightarrow> bool" where
  "isSpace c \<longleftrightarrow> c = CHR '' '' \<or> c = CHR 0x09 \<or> c = CHR 0x0D \<or> c = CHR 0x0A"

definition skip_space :: "string \<Rightarrow> string" where
  "skip_space cs = dropWhile isSpace cs"

fun expect :: "string \<Rightarrow> string \<Rightarrow> error + string" where
  "expect [] cs = Inr cs"
| "expect (l # ls) [] = Inl ErrUnexpectedEOF"
| "expect (l # ls) (c # cs) = (if c = l then expect ls cs else Inl SyntaxError)"

text \<open>One or more digits.\<close>

definition digits1 :: "string \<Rightarrow> error + string \<times> string" where
  "digits1 cs =
     (if takeWhile isDigit cs = [] then Inl (fail_at cs)
      else Inr (takeWhile isDigit cs, dropWhile isDigit cs))"

definition scan_int :: "string \<Rightarrow> error + string \<times> string" where
  "scan_int cs =
     (case cs of
        [] \<Rightarrow> Inl ErrUnexpectedEOF
      | c # r \<Rightarrow> if c = CHR ''0'' then Inr (''0'', r) else digits1 cs)"

definition scan_frac :: "string \<Rightarrow> error + string \<times> string" where
  "scan_frac cs =
     (case cs of
        [] \<Rightarrow> Inr ([], cs)
      | c # r \<Rightarrow>
          if c = CHR ''.'' then
            (case digits1 r of Inl e \<Rightarrow> Inl e | Inr (ds, r') \<Rightarrow> Inr (c # ds, r'))
          else Inr ([], cs))"

definition scan_exp :: "string \<Rightarrow> error + string \<times> string" where
  "scan_exp cs =
     (case cs of
        [] \<Rightarrow> Inr ([], cs)
      | c # r \<Rightarrow>
          if c = CHR ''e'' \<or> c = CHR ''E'' then
            (let sign = (case r of [] \<Rightarrow> [] | s # _ \<Rightarrow> if s = CHR ''+'' \<or> s = CHR ''-'' then [s] else []);
                 r1 = drop (length sign) r
             in case digits1 r1 of Inl e \<Rightarrow> Inl e | Inr (ds, r') \<Rightarrow> Inr (c # sign @ ds, r'))
          else Inr ([], cs))"

definition scan_number :: "string \<Rightarrow> error + string \<times> string" where
  "scan_number cs =
     (let sign = (case cs of [] \<Rightarrow> [] | s # _ \<Rightarrow> if s = CHR ''-'' then [s] else []);
          r0 = drop (length sign) cs
      in case scan_int r0 of
           Inl e \<Rightarrow> Inl e
         | Inr (i, r1) \<Rightarrow>
             (case scan_frac r1 of
                Inl e \<Rightarrow> Inl e
              | Inr (f, r2) \<Rightarrow>
                  (case scan_exp r2 of
                     Inl e \<Rightarrow> Inl e
                   | Inr (x, r3) \<Rightarrow> Inr (sign @ i @ f @ x, r3))))"

text \<open>The character an escape stands for (after the backslash).\<close>

definition unescape :: "char \<Rightarrow> char option" where
  "unescape c =
     (if c = CHR 0x22 \<or> c = CHR 0x5C \<or> c = CHR ''/'' then Some c
      else if c = CHR ''b'' then Some (CHR 0x08)
      else if c = CHR ''f'' then Some (CHR 0x0C)
      else if c = CHR ''n'' then Some (CHR 0x0A)
      else if c = CHR ''r'' then Some (CHR 0x0D)
      else if c = CHR ''t'' then Some (CHR 0x09)
      else None)"

text \<open>The rest of a string, after its opening quote: the characters and what follows the closing quote.\<close>

fun scan_string :: "string \<Rightarrow> error + string \<times> string" where
  "scan_string [] = Inl ErrUnexpectedEOF"
| "scan_string (c # cs) =
     (if c = CHR 0x22 then Inr ([], cs)
      else if c = CHR 0x5C then
        (case cs of
           [] \<Rightarrow> Inl ErrUnexpectedEOF
         | x # cs' \<Rightarrow>
             (case unescape x of
                None \<Rightarrow> Inl SyntaxError
              | Some ch \<Rightarrow>
                  (case scan_string cs' of Inl e \<Rightarrow> Inl e | Inr (s, r) \<Rightarrow> Inr (ch # s, r))))
      else if (of_char c :: nat) < 32 then Inl SyntaxError
      else (case scan_string cs of Inl e \<Rightarrow> Inl e | Inr (s, r) \<Rightarrow> Inr (c # s, r)))"

text \<open>
  The recursive descent over values. The first argument bounds the number of calls:
  \<open>read_value\<close> starts it at twice the length of the text plus two, and a scan
  that reaches the bound is refused (no text evaluated below does).
  \<open>scan_elements\<close> reads an array after \<open>[\<close> or a comma, \<open>scan_members\<close> an object
  after \<open>{\<close> or a comma.
\<close>

fun scan_value :: "nat \<Rightarrow> string \<Rightarrow> error + json \<times> string"
  and scan_elements :: "nat \<Rightarrow> json list \<Rightarrow> string \<Rightarrow> error + json \<times> string"
  and scan_members :: "nat \<Rightarrow> (string \<times> json) list \<Rightarrow> string \<Rightarrow> error + json \<times> string" where
  "scan_value 0 cs = Inl SyntaxError"
| "scan_value (Suc n) cs =
     (case skip_space cs of
        [] \<Rightarrow> Inl ErrUnexpectedEOF
      | c # r \<Rightarrow>
          if c = CHR ''{'' then
            (case skip_space r of
               [] \<Rightarrow> Inl ErrUnexpectedEOF
             | c' # r' \<Rightarrow> if c' = CHR ''}'' then Inr (JObject [], r') else scan_members n [] (c' # r'))
          else if c = CHR ''['' then
            (case skip_space r of
               [] \<Rightarrow> Inl ErrUnexpectedEOF
             | c' # r' \<Rightarrow> if c' = CHR '']'' then Inr (JArray [], r') else scan_elements n [] (c' # r'))
          else if c = CHR 0x22 then
            (case scan_string r of Inl e \<Rightarrow> Inl e | Inr (s, r') \<Rightarrow> Inr (JString s, r'))
          else if c = CHR ''-'' \<or> isDigit c then
            (case scan_number (c # r) of Inl e \<Rightarrow> Inl e | Inr (s, r') \<Rightarrow> Inr (JNumber s, r'))
          else if c = CHR ''t'' then
            (case expect ''rue'' r of Inl e \<Rightarrow> Inl e | Inr r' \<Rightarrow> Inr (JBool True, r'))
          else if c = CHR ''f'' then
            (case expect ''alse'' r of Inl e \<Rightarrow> Inl e | Inr r' \<Rightarrow> Inr (JBool False, r'))
          else if c = CHR ''n'' then
            (case expect ''ull'' r of Inl e \<Rightarrow> Inl e | Inr r' \<Rightarrow> Inr (JNull, r'))
          else Inl SyntaxError)"
| "scan_elements 0 acc cs = Inl SyntaxError"
| "scan_elements (Suc n) acc cs =
     (case scan_value n cs of
        Inl e \<Rightarrow> Inl e
      | Inr (v, r) \<Rightarrow>
          (case skip_space r of
             [] \<Rightarrow> Inl ErrUnexpectedEOF
           | c # r' \<Rightarrow>
               if c = CHR '','' then scan_elements n (acc @ [v]) r'
               else if c = CHR '']'' then Inr (JArray (acc @ [v]), r')
               else Inl SyntaxError))"
| "scan_members 0 acc cs = Inl SyntaxError"
| "scan_members (Suc n) acc cs =
     (case skip_space cs of
        [] \<Rightarrow> Inl ErrUnexpectedEOF
      | q # r \<Rightarrow>
          if q \<noteq> CHR 0x22 then Inl SyntaxError
          else
            (case scan_string r of
               Inl e \<Rightarrow> Inl e
             | Inr (k, r1) \<Rightarrow>
                 (case skip_space r1 of
                    [] \<Rightarrow> Inl ErrUnexpectedEOF
                  | colon # r2 \<Rightarrow>
                      if colon \<noteq> CHR '':'' then Inl SyntaxError
                      else
                        (case scan_value n r2 of
                           Inl e \<Rightarrow> Inl e
                         | Inr (v, r3) \<Rightarrow>
                             (case skip_space r3 of
                                [] \<Rightarrow> Inl ErrUnexpectedEOF
                              | c # r4 \<Rightarrow>
                                  if c = CHR '','' then scan_members n (acc @ [(k, v)]) r4
                                  else if c = CHR ''}'' then Inr (JObject (acc @ [(k, v)]), r4)
                                  else Inl SyntaxError)))))"

text \<open>
  \<open>Decoder.Decode\<close> reads the next value of the stream: \<open>EOF\<close> when only white space
  is left; an object or array ends at its closing bracket, whatever follows; after
  any other value the scanner wants white space or the end of the text.
\<close>

definition read_value :: "string \<Rightarrow> error + json" where
  "read_value body =
     (if skip_space body = [] then Inl EOF
      else
        (case scan_value (2 * length body + 2) body of
           Inl e \<Rightarrow> Inl e
         | Inr (v, r) \<Rightarrow>
             (case v of
                JObject _ \<Rightarrow> Inr v
              | JArray _ \<Rightarrow> Inr v
              | _ \<Rightarrow> (case r of [] \<Rightarrow> Inr v | c # _ \<Rightarrow> if isSpace c then Inr v else Inl SyntaxError))))"

subsection \<open>The JSON decoder: storing a value into a destination\<close>

text \<open>
  \<open>encoding/json\<close> stores a value into a destination of a given Go type. A value of
  the wrong kind for the destination is skipped and recorded as an
  \<open>UnmarshalTypeError\<close>; decoding goes on, and the first such error is returned at the
  end. \<open>null\<close> leaves a field of a basic or struct type as it is, and makes a slice nil.
  Each function takes the value and what the destination holds, and gives what it
  holds afterwards and the error recorded.
\<close>

definition UnmarshalTypeError :: error where
  "UnmarshalTypeError = JsonError ''UnmarshalTypeError''"

definition first_error :: "error option \<Rightarrow> error option \<Rightarrow> error option" where
  "first_error e1 e2 = (case e1 of Some e \<Rightarrow> Some e | None \<Rightarrow> e2)"

definition digits_value :: "string \<Rightarrow> nat" where
  "digits_value ds = foldl (\<lambda>a c. 10 * a + (of_char c - 48)) 0 ds"

text \<open>\<open>strconv.ParseInt\<close> on a JSON number literal: an optional minus sign and digits only.\<close>

definition int_literal :: "string \<Rightarrow> int option" where
  "int_literal s =
     (let neg = (case s of [] \<Rightarrow> False | c # _ \<Rightarrow> c = CHR ''-'');
          ds = (if neg then drop 1 s else s)
      in if ds \<noteq> [] \<and> list_all isDigit ds
         then Some (if neg then - int (digits_value ds) else int (digits_value ds))
         else None)"

text \<open>A Go \<open>int\<close> of 64 bits.\<close>

definition decode_int :: "json \<Rightarrow> int \<Rightarrow> int \<times> error option" where
  "decode_int v old =
     (case v of
        JNull \<Rightarrow> (old, None)
      | JNumber s \<Rightarrow>
          (case int_literal s of
             None \<Rightarrow> (old, Some UnmarshalTypeError)
           | Some n \<Rightarrow>
               if - (2 ^ 63) \<le> n \<and> n < 2 ^ 63 then (n, None) else (old, Some UnmarshalTypeError))
      | _ \<Rightarrow> (old, Some UnmarshalTypeError))"

text \<open>
  A \<open>float64\<close> field takes any number literal; a literal beyond the range of
  binary64, which the library refuses, is outside the model.
\<close>

definition decode_float64 :: "json \<Rightarrow> float64 \<Rightarrow> float64 \<times> error option" where
  "decode_float64 v old =
     (case v of
        JNull \<Rightarrow> (old, None)
      | JNumber s \<Rightarrow> (Lit s, None)
      | _ \<Rightarrow> (old, Some UnmarshalTypeError))"

definition decode_string :: "json \<Rightarrow> string \<Rightarrow> string \<times> error option" where
  "decode_string v old =
     (case v of
        JNull \<Rightarrow> (old, None)
      | JString s \<Rightarrow> (s, None)
      | _ \<Rightarrow> (old, Some UnmarshalTypeError))"

definition decode_bool :: "json \<Rightarrow> bool \<Rightarrow> bool \<times> error option" where
  "decode_bool v old =
     (case v of
        JNull \<Rightarrow> (old, None)
      | JBool b \<Rightarrow> (b, None)
      | _ \<Rightarrow> (old, Some UnmarshalTypeError))"

text \<open>
  A key of an object selects the field whose tag it equals, or else the first field
  whose tag it equals up to the case of ASCII letters; a key of no field is skipped.
\<close>

definition find_field :: "string list \<Rightarrow> string \<Rightarrow> string option" where
  "find_field names key =
     (if key \<in> set names then Some key
      else find (\<lambda>n. map to_lower n = map to_lower key) names)"

fun decode_members ::
  "string list \<Rightarrow> (string \<Rightarrow> json \<Rightarrow> 's \<Rightarrow> 's \<times> error option) \<Rightarrow> (string \<times> json) list \<Rightarrow> 's \<Rightarrow> 's \<times> error option" where
  "decode_members names store [] s = (s, None)"
| "decode_members names store ((k, v) # kvs) s =
     (case (case find_field names k of None \<Rightarrow> (s, None) | Some n \<Rightarrow> store n v s) of
        (s1, e1) \<Rightarrow>
          (case decode_members names store kvs s1 of (s2, e2) \<Rightarrow> (s2, first_error e1 e2)))"

definition decode_struct ::
  "string list \<Rightarrow> (string \<Rightarrow> json \<Rightarrow> 's \<Rightarrow> 's \<times> error option) \<Rightarrow> json \<Rightarrow> 's \<Rightarrow> 's \<times> error option" where
  "decode_struct names store v s =
     (case v of
        JNull \<Rightarrow> (s, None)
      | JObject kvs \<Rightarrow> decode_members names store kvs s
      | _ \<Rightarrow> (s, Some UnmarshalTypeError))"

text \<open>
  An array into a slice: the element at an index the slice already has is decoded in
  place, a new element starts from the zero value, and the slice gets the array's length.
\<close>

fun decode_elements ::
  "(json \<Rightarrow> 'a \<Rightarrow> 'a \<times> error option) \<Rightarrow> 'a \<Rightarrow> json list \<Rightarrow> 'a list \<Rightarrow> 'a list \<times> error option" where
  "decode_elements dec z [] olds = ([], None)"
| "decode_elements dec z (v # vs) olds =
     (case dec v (case olds of [] \<Rightarrow> z | old # _ \<Rightarrow> old) of
        (x, e1) \<Rightarrow>
          (case decode_elements dec z vs (drop 1 olds) of (xs, e2) \<Rightarrow> (x # xs, first_error e1 e2)))"

definition decode_list ::
  "(json \<Rightarrow> 'a \<Rightarrow> 'a \<times> error option) \<Rightarrow> 'a \<Rightarrow> json \<Rightarrow> 'a list \<Rightarrow> 'a list \<times> error option" where
  "decode_list dec z v olds =
     (case v of
        JNull \<Rightarrow> ([], None)
      | JArray vs \<Rightarrow> decode_elements dec z vs olds
      | _ \<Rightarrow> (olds, Some UnmarshalTypeError))"

text \<open>The structs of the program, field by field under the tags of the source.\<close>

definition Goals_fields :: "string list" where
  "Goals_fields = [''activeMinutes'', ''caloriesOut'', ''distance'', ''steps'']"

definition decode_Goals_field :: "string \<Rightarrow> json \<Rightarrow> Goals \<Rightarrow> Goals \<times> error option" where
  "decode_Goals_field name v s =
     (if name = ''activeMinutes'' then
        (case decode_int v (Goals.ActiveMinutes s) of (x, e) \<Rightarrow> (s\<lparr>Goals.ActiveMinutes := x\<rparr>, e))
      else if name = ''caloriesOut'' then
        (case decode_int v (Goals.CaloriesOut s) of (x, e) \<Rightarrow> (s\<lparr>Goals.CaloriesOut := x\<rparr>, e))
      else if name = ''distance'' then
        (case decode_float64 v (Goals.Distance s) of (x, e) \<Rightarrow> (s\<lparr>Goals.Distance := x\<rparr>, e))
      else if name = ''steps'' then
        (case decode_int v (Goals.Steps s) of (x, e) \<Rightarrow> (s\<lparr>Goals.Steps := x\<rparr>, e))
      else (s, None))"

definition decode_Goals :: "json \<Rightarrow> Goals \<Rightarrow> Goals \<times> error option" where
  "decode_Goals = decode_struct Goals_fields decode_Goals_field"

definition Distance_fields :: "string list" where
  "Distance_fields = [''activity'', ''distance'']"

definition decode_Distance_field :: "string \<Rightarrow> json \<Rightarrow> Distance \<Rightarrow> Distance \<times> error option" where
  "decode_Distance_field name v s =
     (if name = ''activity'' then
        (case decode_string v (Distance.Activity s) of (x, e) \<Rightarrow> (s\<lparr>Distance.Activity := x\<rparr>, e))
      else if name = ''distance'' then
        (case decode_float64 v (Distance.Distance s) of (x, e) \<Rightarrow> (s\<lparr>Distance.Distance := x\<rparr>, e))
      else (s, None))"

definition decode_Distance :: "json \<Rightarrow> Distance \<Rightarrow> Distance \<times> error option" where
  "decode_Distance = decode_struct Distance_fields decode_Distance_field"

definition Summary_fields :: "string list" where
  "Summary_fields = [''activeScore'', ''activityCalories'', ''caloriesBMR'', ''caloriesOut'', ''distances'', ''fairlyActiveMinutes'', ''lightlyActiveMinutes'', ''marginalCalories'', ''sedentaryMinutes'', ''steps'', ''veryActiveMinutes'']"

definition decode_Summary_field :: "string \<Rightarrow> json \<Rightarrow> Summary \<Rightarrow> Summary \<times> error option" where
  "decode_Summary_field name v s =
     (if name = ''activeScore'' then
        (case decode_int v (Summary.ActiveScore s) of (x, e) \<Rightarrow> (s\<lparr>Summary.ActiveScore := x\<rparr>, e))
      else if name = ''activityCalories'' then
        (case decode_int v (Summary.ActivityCalories s) of (x, e) \<Rightarrow> (s\<lparr>Summary.ActivityCalories := x\<rparr>, e))
      else if name = ''caloriesBMR'' then
        (case decode_int v (Summary.CaloriesBMR s) of (x, e) \<Rightarrow> (s\<lparr>Summary.CaloriesBMR := x\<rparr>, e))
      else if name = ''caloriesOut'' then
        (case decode_int v (Summary.CaloriesOut s) of (x, e) \<Rightarrow> (s\<lparr>Summary.CaloriesOut := x\<rparr>, e))
      else if name = ''distances'' then
        (case decode_list decode_Distance zero_Distance v (Summary.Distances s) of (x, e) \<Rightarrow> (s\<lparr>Summary.Distances := x\<rparr>, e))
      else if name = ''fairlyActiveMinutes'' then
        (case decode_int v (Summary.FairlyActiveMinutes s) of (x, e) \<Rightarrow> (s\<lparr>Summary.FairlyActiveMinutes := x\<rparr>, e))
      else if name = ''lightlyActiveMinutes'' then
        (case decode_int v (Summary.LightlyActiveMinutes s) of (x, e) \<Rightarrow> (s\<lparr>Summary.LightlyActiveMinutes := x\<rparr>, e))
      else if name = ''marginalCalories'' then
        (case decode_int v (Summary.MarginalCalories s) of (x, e) \<Rightarrow> (s\<lparr>Summary.MarginalCalories := x\<rparr>, e))
      else if name = ''sedentaryMinutes'' then
        (case decode_int v (Summary.SedentaryMinutes s) of (x, e) \<Rightarrow> (s\<lparr>Summary.SedentaryMinutes := x\<rparr>, e))
      else if name = ''steps'' then
        (case decode_int v (Summary.Steps s) of (x, e) \<Rightarrow> (s\<lparr>Summary.Steps := x\<rparr>, e))
      else if name = ''veryActiveMinutes'' then
        (case decode_int v (Summary.VeryActiveMinutes s) of (x, e) \<Rightarrow> (s\<lparr>Summary.VeryActiveMinutes := x\<rparr>, e))
      else (s, None))"

definition decode_Summary :: "json \<Rightarrow> Summary \<Rightarrow> Summary \<times> error option" where
  "decode_Summary = decode_struct Summary_fields decode_Summary_field"

definition ActivitySummary_fields :: "string list" where
  "ActivitySummary_fields = [''goals'', ''summary'']"

definition decode_ActivitySummary_field :: "string \<Rightarrow> json \<Rightarrow> ActivitySummary \<Rightarrow> ActivitySummary \<times> error option" where
  "decode_ActivitySummary_field name v s =
     (if name = ''goals'' then
        (case decode_Goals v (ActivitySummary.Goals s) of (x, e) \<Rightarrow> (s\<lparr>ActivitySummary.Goals := x\<rparr>, e))
      else if name = ''summary'' then
        (case decode_Summary v (ActivitySummary.Summary s) of (x, e) \<Rightarrow> (s\<lparr>ActivitySummary.Summary := x\<rparr>, e))
      else (s, None))"

definition decode_ActivitySummary :: "json \<Rightarrow> ActivitySummary \<Rightarrow> ActivitySummary \<times> error option" where
  "decode_ActivitySummary = decode_struct ActivitySummary_fields decode_ActivitySummary_field"

definition User_fields :: "string list" where
  "User_fields = [''strideLengthRunningType'', ''weight'', ''age'', ''fullName'', ''gender'', ''glucoseUnit'', ''country'', ''strideLengthWalking'', ''avatar'', ''encodedId'', ''startDayOfWeek'', ''avatar150'', ''corporate'', ''dateOfBirth'', ''heightUnit'', ''locale'', ''memberSince'', ''offsetFromUTCMillis'', ''averageDailySteps'', ''timezone'', ''strideLengthRunning'', ''weightUnit'', ''distanceUnit'', ''height'', ''strideLengthWalkingType'', ''displayName'']"

definition decode_User_field :: "string \<Rightarrow> json \<Rightarrow> User \<Rightarrow> User \<times> error option" where
  "decode_User_field name v s =
     (if name = ''strideLengthRunningType'' then
        (case decode_string v (User.StrideLengthRunningType s) of (x, e) \<Rightarrow> (s\<lparr>User.StrideLengthRunningType := x\<rparr>, e))
      else if name = ''weight'' then
        (case decode_float64 v (User.Weight s) of (x, e) \<Rightarrow> (s\<lparr>User.Weight := x\<rparr>, e))
      else if name = ''age'' then
        (case decode_int v (User.Age s) of (x, e) \<Rightarrow> (s\<lparr>User.Age := x\<rparr>, e))
      else if name = ''fullName'' then
        (case decode_string v (User.FullName s) of (x, e) \<Rightarrow> (s\<lparr>User.FullName := x\<rparr>, e))
      else if name = ''gender'' then
        (case decode_string v (User.Gender s) of (x, e) \<Rightarrow> (s\<lparr>User.Gender := x\<rparr>, e))
      else if name = ''glucoseUnit'' then
        (case decode_string v (User.GlucoseUnit s) of (x, e) \<Rightarrow> (s\<lparr>User.GlucoseUnit := x\<rparr>, e))
      else if name = ''country'' then
        (case decode_string v (User.Country s) of (x, e) \<Rightarrow> (s\<lparr>User.Country := x\<rparr>, e))
      else if name = ''strideLengthWalking'' then
        (case decode_float64 v (User.StrideLengthWalking s) of (x, e) \<Rightarrow> (s\<lparr>User.StrideLengthWalking := x\<rparr>, e))
      else if name = ''avatar'' then
        (case decode_string v (User.Avatar s) of (x, e) \<Rightarrow> (s\<lparr>User.Avatar := x\<rparr>, e))
      else if name = ''encodedId'' then
        (case decode_string v (User.EncodedID s) of (x, e) \<Rightarrow> (s\<lparr>User.EncodedID := x\<rparr>, e))
      else if name = ''startDayOfWeek'' then
        (case decode_string v (User.StartDayOfWeek s) of (x, e) \<Rightarrow> (s\<lparr>User.StartDayOfWeek := x\<rparr>, e))
      else if name = ''avatar150'' then
        (case decode_string v (User.Avatar150 s) of (x, e) \<Rightarrow> (s\<lparr>User.Avatar150 := x\<rparr>, e))
      else if name = ''corporate'' then
        (case decode_bool v (User.Corporate s) of (x, e) \<Rightarrow> (s\<lparr>User.Corporate := x\<rparr>, e))
      else if name = ''dateOfBirth'' then
        (case decode_string v (User.DateOfBirth s) of (x, e) \<Rightarrow> (s\<lparr>User.DateOfBirth := x\<rparr>, e))
      else if name = ''heightUnit'' then
        (case decode_string v (User.HeightUnit s) of (x, e) \<Rightarrow> (s\<lparr>User.HeightUnit := x\<rparr>, e))
      else if name = ''locale'' then
        (case decode_string v (User.Locale s) of (x, e) \<Rightarrow> (s\<lparr>User.Locale := x\<rparr>, e))
      else if name = ''memberSince'' then
        (case decode_string v (User.MemberSince s) of (x, e) \<Rightarrow> (s\<lparr>User.MemberSince := x\<rparr>, e))
      else if name = ''offsetFromUTCMillis'' then
        (case decode_int v (User.OffsetFromUTCMillis s) of (x, e) \<Rightarrow> (s\<lparr>User.OffsetFromUTCMillis := x\<rparr>, e))
      else if name = ''averageDailySteps'' then
        (case decode_int v (User.AverageDailySteps s) of (x, e) \<Rightarrow> (s\<lparr>User.AverageDailySteps := x\<rparr>, e))
      else if name = ''timezone'' then
        (case decode_string v (User.Timezone s) of (x, e) \<Rightarrow> (s\<lparr>User.Timezone := x\<rparr>, e))
      else if name = ''strideLengthRunning'' then
        (case decode_float64 v (User.StrideLengthRunning s) of (x, e) \<Rightarrow> (s\<lparr>User.StrideLengthRunning := x\<rparr>, e))
      else if name = ''weightUnit'' then
        (case decode_string v (User.WeightUnit s) of (x, e) \<Rightarrow> (s\<lparr>User.WeightUnit := x\<rparr>, e))
      else if name = ''distanceUnit'' then
        (case decode_string v (User.DistanceUnit s) of (x, e) \<Rightarrow> (s\<lparr>User.DistanceUnit := x\<rparr>, e))
      else if name = ''height'' then
        (case decode_float64 v (User.Height s) of (x, e) \<Rightarrow> (s\<lparr>User.Height := x\<rparr>, e))
      else if name = ''strideLengthWalkingType'' then
        (case decode_string v (User.StrideLengthWalkingType s) of (x, e) \<Rightarrow> (s\<lparr>User.StrideLengthWalkingType := x\<rparr>, e))
      else if name = ''displayName'' then
        (case decode_string v (User.DisplayName s) of (x, e) \<Rightarrow> (s\<lparr>User.DisplayName := x\<rparr>, e))
      else (s, None))"

definition decode_User :: "json \<Rightarrow> User \<Rightarrow> User \<times> error option" where
  "decode_User = decode_struct User_fields decode_User_field"

definition UserProfile_fields :: "string list" where
  "UserProfile_fields = [''user'']"

definition decode_UserProfile_field :: "string \<Rightarrow> json \<Rightarrow> UserProfile \<Rightarrow> UserProfile \<times> error option" where
  "decode_UserProfile_field name v s =
     (if name = ''user'' then
        (case decode_User v (UserProfile.User s) of (x, e) \<Rightarrow> (s\<lparr>UserProfile.User := x\<rparr>, e))
      else (s, None))"

definition decode_UserProfile :: "json \<Rightarrow> UserProfile \<Rightarrow> UserProfile \<times> error option" where
  "decode_UserProfile = decode_struct UserProfile_fields decode_UserProfile_field"

text \<open>\<open>json.NewDecoder(resp.Body).Decode(respStr)\<close>: a text that does not scan leaves the destination as it is.\<close>

definition go_json_Decode ::
  "(json \<Rightarrow> 'd \<Rightarrow> 'd \<times> error option) \<Rightarrow> string \<Rightarrow> 'd \<Rightarrow> 'd \<times> error option" where
  "go_json_Decode dec body d =
     (case read_value body of Inl e \<Rightarrow> (d, Some e) | Inr v \<Rightarrow> dec v d)"

subsection \<open>The library, for each destination type, and stub clients\<close>

definition golib :: "(json \<Rightarrow> 'd \<Rightarrow> 'd \<times> error option) \<Rightarrow> (payload, 'd) stdlib" where
  "golib dec =
     \<lparr>url_Parse = go_url_Parse, json_Encode = go_json_Encode,
      http_NewRequest = go_http_NewRequest, json_Decode = go_json_Decode dec,
      fmt_GoSyntax = go_fmt_GoSyntax\<rparr>"

text \<open>A client whose server answers every request with the given status and body.\<close>

definition stub_server :: "int \<Rightarrow> string \<Rightarrow> Client" where
  "stub_server status body =
     NewClient (\<lambda>req. Inr \<lparr>StatusCode = status, Response.Body = body\<rparr>)"

text \<open>A client whose transport fails on every request.\<close>

definition unreachable :: Client where
  "unreachable = NewClient (\<lambda>req. Inl (NetError ''dial tcp: connection refused''))"

text \<open>A client whose server answers a \<open>GET\<close> of one address with status 200 and the given body, and anything else with 404.\<close>

definition stub_route :: "string \<Rightarrow> string \<Rightarrow> Client" where
  "stub_route addr body =
     NewClient (\<lambda>req.
       if Method req = ''GET'' \<and> URL req = Rendered addr
       then Inr \<lparr>StatusCode = 200, Response.Body = body\<rparr>
       else Inr \<lparr>StatusCode = 404, Response.Body = []\<rparr>)"

text \<open>The bodies and the request used at concrete inputs.\<close>

definition steps_body :: string where
  \<open>steps_body = ''{"goals":{"steps":10000},"summary":{"steps":8000}}''\<close>

definition mistyped_body :: string where
  \<open>mistyped_body = ''{"goals":{"steps":10000},"summary":"none"}''\<close>

definition jane_body :: string where
  \<open>jane_body = ''{"user":{"fullName":"Jane Doe"}}''\<close>

definition profile_request :: Request where
  "profile_request =
     \<lparr>Method = ''GET'', URL = Rendered ''https://api.fitbit.com/1/user/-/profile.json'',
      Header = [(''User-Agent'', [''go-fitbit-api:v0.0.1''])], Request.Body = []\<rparr>"

definition activity_address :: string where
  "activity_address = ''https://api.fitbit.com/1/user/-/activities/date/2013-06-27.json''"

definition activity_request :: Request where
  "activity_request =
     \<lparr>Method = ''GET'', URL = Rendered activity_address,
      Header = [(''User-Agent'', [''go-fitbit-api:v0.0.1''])], Request.Body = []\<rparr>"

definition mistyped_profile_body :: string where
  \<open>mistyped_profile_body = ''{"user":{"fullName":"Jane Doe","age":"x"}}''\<close>

text \<open>Clients set up by hand: a base URL with an empty port, and one whose port is malformed.\<close>

definition empty_port :: Client where
  "empty_port = \<lparr>Client = Client unreachable, BaseUrl = Rendered ''http://h:''\<rparr>"


definition misconfigured :: Client where
  "misconfigured = \<lparr>Client = Client unreachable, BaseUrl = Rendered ''http://h:8x''\<rparr>"

section \<open>Facts shared by the proofs\<close>

lemma trace_Do_received:
  "Client c req = Inr r \<Longrightarrow>
     trace (Do lib c req respStr) = [BodyClose] \<or> trace (Do lib c req respStr) = [BodyDecode, BodyClose]"
  by (auto simp: Do_def split: option.splits prod.splits)

lemma decode_steps_body:
  "json_Decode (golib decode_ActivitySummary) steps_body zero_ActivitySummary =
     (zero_ActivitySummary\<lparr>Goals := zero_Goals\<lparr>Goals.Steps := 10000\<rparr>,
        Summary := zero_Summary\<lparr>Summary.Steps := 8000\<rparr>\<rparr>, None)"
  by code_simp

lemma decode_mistyped_body:
  "json_Decode (golib decode_ActivitySummary) mistyped_body zero_ActivitySummary =
     (zero_ActivitySummary\<lparr>Goals := zero_Goals\<lparr>Goals.Steps := 10000\<rparr>\<rparr>, Some UnmarshalTypeError)"
  by code_simp

lemma stub_server_answers:
  "Client (stub_server status body) req = Inr \<lparr>StatusCode = status, Response.Body = body\<rparr>"
  by (simp add: stub_server_def NewClient_def)

lemma unreachable_fails:
  "Client unreachable req = Inl (NetError ''dial tcp: connection refused'')"
  by (simp add: unreachable_def NewClient_def)

text \<open>The address of a client built by \<open>NewClient\<close> keeps the host of \<open>BASE_URL\<close>, whatever path follows.\<close>

lemma getScheme_BASE_URL:
  "getScheme (BASE_URL @ w) = Inr (''https'', ''//api.fitbit.com/1'' @ w)"
  by (simp add: BASE_URL_def getScheme_def isAlpha_def isDigit_def)

lemma BASE_URL_not_star: "BASE_URL @ w \<noteq> ''*''"
  by (simp add: BASE_URL_def)

lemma without_query_base:
  "\<exists>w'. without_query (''//api.fitbit.com/1'' @ w) = ''//api.fitbit.com/1'' @ w'"
proof (cases "force_query (''//api.fitbit.com/1'' @ w)")
  case True
  then have "w \<noteq> []" by (auto simp: force_query_def)
  then have "butlast (''//api.fitbit.com/1'' @ w) = ''//api.fitbit.com/1'' @ butlast w"
    by (simp add: butlast_append)
  with True show ?thesis by (simp add: without_query_def)
next
  case False
  then show ?thesis by (simp add: without_query_def cut_before_def)
qed

lemma parseAuthority_base: "parseAuthority ''api.fitbit.com'' = Inr (None, ''api.fitbit.com'')"
  by code_simp

lemma setPath_Host: "setPath u p = Inr v \<Longrightarrow> u_Host v = u_Host u"
  by (auto simp: setPath_def split: sum.splits)

lemma parse_rest_base:
  assumes "parse_rest u (''//api.fitbit.com/1'' @ w) = Inr p" and "u_Scheme u \<noteq> []"
  shows "u_Host p = ''api.fitbit.com''"
proof -
  have a: "cut_before (CHR ''/'') (drop 2 (''//api.fitbit.com/1'' @ w)) = ''api.fitbit.com''"
    by (simp add: cut_before_def)
  from assms have "setPath (u\<lparr>u_User := None, u_Host := ''api.fitbit.com''\<rparr>)
      (dropWhile (\<lambda>x. x \<noteq> CHR ''/'') (drop 2 (''//api.fitbit.com/1'' @ w))) = Inr p"
    unfolding parse_rest_def a parseAuthority_base by simp
  from setPath_Host [OF this] show ?thesis by simp
qed

lemma parse_base:
  assumes "parse (BASE_URL @ w) = Inr p"
  shows "u_Host p = ''api.fitbit.com''"
proof -
  obtain w' where w': "without_query (''//api.fitbit.com/1'' @ w) = ''//api.fitbit.com/1'' @ w'"
    using without_query_base by blast
  from assms have "\<not> list_ex isCTL (BASE_URL @ w)"
    by (auto simp: parse_def)
  with assms have "parse_rest
      (empty_URL\<lparr>u_Scheme := map to_lower ''https'',
         u_ForceQuery := force_query (''//api.fitbit.com/1'' @ w),
         u_RawQuery := raw_query (''//api.fitbit.com/1'' @ w)\<rparr>)
      (without_query (''//api.fitbit.com/1'' @ w)) = Inr p"
    by (simp only: parse_def getScheme_BASE_URL BASE_URL_not_star if_False sum.case prod.case)
  then have "parse_rest
      (empty_URL\<lparr>u_Scheme := map to_lower ''https'',
         u_ForceQuery := force_query (''//api.fitbit.com/1'' @ w),
         u_RawQuery := raw_query (''//api.fitbit.com/1'' @ w)\<rparr>)
      (''//api.fitbit.com/1'' @ w') = Inr p"
    by (simp only: w')
  from parse_rest_base [OF this] show ?thesis by simp
qed

lemma Parse_base:
  assumes "Parse (BASE_URL @ w) = Inr p"
  shows "u_Host p = ''api.fitbit.com''"
proof -
  have c: "cut_before (CHR ''#'') (BASE_URL @ w) = BASE_URL @ cut_before (CHR ''#'') w"
    by (simp add: cut_before_def BASE_URL_def)
  from assms obtain q where q: "parse (BASE_URL @ cut_before (CHR ''#'') w) = Inr q"
    and "u_Host p = u_Host q"
    unfolding Parse_def c by (auto split: sum.splits if_splits)
  with parse_base [OF q] show ?thesis by simp
qed

lemma removeEmptyPort_base: "removeEmptyPort ''api.fitbit.com'' = ''api.fitbit.com''"
  by code_simp

lemma go_http_NewRequest_base:
  assumes "method = [] \<or> validMethod method"
    and "go_url_Parse (BASE_URL @ w) = Inr (Rendered (BASE_URL @ w))"
  shows "go_http_NewRequest method (BASE_URL @ w) body =
     Inr \<lparr>Method = (if method = [] then ''GET'' else method), URL = Rendered (BASE_URL @ w),
          Header = [], Request.Body = body\<rparr>"
proof -
  from assms(2) obtain p where p: "Parse (BASE_URL @ w) = Inr p" and s: "String p = BASE_URL @ w"
    by (auto simp: go_url_Parse_def split: sum.splits)
  from Parse_base [OF p] have "p\<lparr>u_Host := removeEmptyPort (u_Host p)\<rparr> = p"
    by (simp add: removeEmptyPort_base)
  moreover have "validMethod ''GET''" by code_simp
  ultimately show ?thesis
    using assms(1) p s by (auto simp: go_http_NewRequest_def)
qed

section \<open>The executor on a status outside 200..299\<close>

text \<open>
  Claim C1, as the code has it. When the response received has a status code outside
  [200, 299], \<open>Do\<close> returns a nil response and the error that \<open>errors.New\<close> builds from
  the fixed text followed by the \<open>%#v\<close> rendering of the response: a plain string
  error, which holds a text and not the response. The body is closed without having
  been read, the destination is untouched, and nothing is parsed or decoded: the
  outcome is the same whatever the decoder would do.
\<close>

theorem Do_status_outside_RequestFailed:
  assumes "Client c req = Inr r"
    and "\<not> (200 \<le> StatusCode r \<and> StatusCode r \<le> 299)"
  shows "Do lib c req respStr =
      \<lparr>ret_resp = None,
       ret_err = Some (ErrorString (''http request failed, resp: '' @ fmt_GoSyntax lib r)),
       dest = respStr, trace = [BodyClose]\<rparr>
    \<and> Do (lib\<lparr>json_Decode := dec\<rparr>) c req respStr = Do lib c req respStr"
  using assms by (auto simp: Do_def errors_New_def)

theorem Do_status_outside_RequestFailed_witness:
  "Client (stub_server 404 ''Not Found'') profile_request
      = Inr \<lparr>StatusCode = 404, Response.Body = ''Not Found''\<rparr>
   \<and> \<not> (200 \<le> (404::int) \<and> (404::int) \<le> 299)
   \<and> Do (golib decode_UserProfile) (stub_server 404 ''Not Found'') profile_request
        (Some zero_UserProfile) =
      \<lparr>ret_resp = None,
       ret_err = Some (ErrorString (''http request failed, resp: ''
          @ fmt_GoSyntax (golib decode_UserProfile)
              \<lparr>StatusCode = 404, Response.Body = ''Not Found''\<rparr>)),
       dest = Some zero_UserProfile, trace = [BodyClose]\<rparr>"
  using Do_status_outside_RequestFailed
    [of "stub_server 404 ''Not Found''" profile_request
        "\<lparr>StatusCode = 404, Response.Body = ''Not Found''\<rparr>"
        "golib decode_UserProfile" "Some zero_UserProfile"]
  by (simp add: stub_server_answers)

text \<open>
  The claim as stated fails: on a 404 the response returned is nil, the body is closed,
  and the error is an error string, so the caller is handed no response to inspect.
\<close>

theorem Do_status_outside_plain_error_counterexample:
  "ret_resp (Do (golib decode_ActivitySummary) (stub_server 404 steps_body) activity_request
      (Some zero_ActivitySummary)) = None
   \<and> ret_err (Do (golib decode_ActivitySummary) (stub_server 404 steps_body) activity_request
      (Some zero_ActivitySummary)) =
       Some (ErrorString (''http request failed, resp: ''
          @ fmt_GoSyntax (golib decode_ActivitySummary)
              \<lparr>StatusCode = 404, Response.Body = steps_body\<rparr>))
   \<and> trace (Do (golib decode_ActivitySummary) (stub_server 404 steps_body) activity_request
      (Some zero_ActivitySummary)) = [BodyClose]"
  by (simp add: Do_def stub_server_answers errors_New_def)

text \<open>
  Claim C4. When the response received has a status code outside [200, 299], \<open>Do\<close>
  returns an error and the destination holds what it held before the call; the body
  is not decoded.
\<close>

theorem Do_status_outside_dest_unmodified:
  assumes "Client c req = Inr r"
    and "\<not> (200 \<le> StatusCode r \<and> StatusCode r \<le> 299)"
  shows "ret_err (Do lib c req respStr) \<noteq> None
    \<and> dest (Do lib c req respStr) = respStr
    \<and> BodyDecode \<notin> set (trace (Do lib c req respStr))"
  using assms by (auto simp: Do_def)

theorem Do_status_outside_dest_unmodified_witness:
  "Client (stub_server 500 steps_body) profile_request
      = Inr \<lparr>StatusCode = 500, Response.Body = steps_body\<rparr>
   \<and> \<not> (200 \<le> (500::int) \<and> (500::int) \<le> 299)
   \<and> ret_err (Do (golib decode_ActivitySummary) (stub_server 500 steps_body) profile_request
        (Some zero_ActivitySummary)) \<noteq> None
   \<and> dest (Do (golib decode_ActivitySummary) (stub_server 500 steps_body) profile_request
        (Some zero_ActivitySummary)) = Some zero_ActivitySummary
   \<and> BodyDecode \<notin> set (trace (Do (golib decode_ActivitySummary) (stub_server 500 steps_body)
        profile_request (Some zero_ActivitySummary)))"
  using Do_status_outside_dest_unmodified
    [of "stub_server 500 steps_body" profile_request
        "\<lparr>StatusCode = 500, Response.Body = steps_body\<rparr>"
        "golib decode_ActivitySummary" "Some zero_ActivitySummary"]
  by (simp add: stub_server_answers)

section \<open>The executor on a status in 200..299\<close>

text \<open>
  Claim C5. When the response received has a status code in [200, 299] and the decoder
  accepts its body for the non-nil destination (it returns no error and leaves the
  value \<open>d'\<close> there), \<open>Do\<close> returns the response and no error, and the destination
  holds the decoded value.
\<close>

theorem Do_success_decodes:
  assumes "Client c req = Inr r"
    and "200 \<le> StatusCode r" and "StatusCode r \<le> 299"
    and "json_Decode lib (Response.Body r) d = (d', None)"
  shows "Do lib c req (Some d) =
     \<lparr>ret_resp = Some r, ret_err = None, dest = Some d', trace = [BodyDecode, BodyClose]\<rparr>"
  using assms by (simp add: Do_def)

theorem Do_success_decodes_witness:
  "Client (stub_server 200 steps_body) profile_request
      = Inr \<lparr>StatusCode = 200, Response.Body = steps_body\<rparr>
   \<and> (200::int) \<le> 200 \<and> (200::int) \<le> 299
   \<and> json_Decode (golib decode_ActivitySummary) steps_body zero_ActivitySummary =
       (zero_ActivitySummary\<lparr>Goals := zero_Goals\<lparr>Goals.Steps := 10000\<rparr>,
          Summary := zero_Summary\<lparr>Summary.Steps := 8000\<rparr>\<rparr>, None)
   \<and> Do (golib decode_ActivitySummary) (stub_server 200 steps_body) profile_request
        (Some zero_ActivitySummary) =
       \<lparr>ret_resp = Some \<lparr>StatusCode = 200, Response.Body = steps_body\<rparr>, ret_err = None,
        dest = Some (zero_ActivitySummary\<lparr>Goals := zero_Goals\<lparr>Goals.Steps := 10000\<rparr>,
          Summary := zero_Summary\<lparr>Summary.Steps := 8000\<rparr>\<rparr>),
        trace = [BodyDecode, BodyClose]\<rparr>"
proof -
  have h1: "Client (stub_server 200 steps_body) profile_request =
      Inr \<lparr>StatusCode = 200, Response.Body = steps_body\<rparr>"
    by (rule stub_server_answers)
  note h2 = decode_steps_body
  from Do_success_decodes [OF h1 _ _ , of "golib decode_ActivitySummary" zero_ActivitySummary,
      simplified, OF h2]
  show ?thesis using h1 h2 by simp
qed

text \<open>
  Claim C10. When the response received has a status code in [200, 299] and the
  destination is nil, \<open>Do\<close> returns the response and a nil error; the body is closed
  without being read or decoded, and the outcome is the same whatever the decoder
  would do.
\<close>

theorem Do_nil_destination:
  assumes "Client c req = Inr r"
    and "200 \<le> StatusCode r" and "StatusCode r \<le> 299"
  shows "Do lib c req None =
       \<lparr>ret_resp = Some r, ret_err = None, dest = None, trace = [BodyClose]\<rparr>
     \<and> Do (lib\<lparr>json_Decode := dec\<rparr>) c req None = Do lib c req None"
  using assms by (simp add: Do_def)

theorem Do_nil_destination_witness:
  "Client (stub_server 204 []) profile_request = Inr \<lparr>StatusCode = 204, Response.Body = []\<rparr>
   \<and> (200::int) \<le> 204 \<and> (204::int) \<le> 299
   \<and> Do (golib decode_UserProfile) (stub_server 204 []) profile_request None =
       \<lparr>ret_resp = Some \<lparr>StatusCode = 204, Response.Body = []\<rparr>, ret_err = None, dest = None,
        trace = [BodyClose]\<rparr>"
  using Do_nil_destination
    [of "stub_server 204 []" profile_request "\<lparr>StatusCode = 204, Response.Body = []\<rparr>"
        "golib decode_UserProfile"]
  by (simp add: stub_server_answers)

text \<open>
  Claim C9. The failures of \<open>Do\<close> differ in the response returned. When the send
  fails, \<open>Do\<close> returns a nil response with the transport's error; when the status is
  outside [200, 299], a nil response with an error. When the status is in [200, 299]
  and decoding into a non-nil destination fails, \<open>Do\<close> returns the response itself
  together with the decoder's error, and the destination holds whatever the decoder
  left in it.
\<close>

theorem Do_failure_classes:
  "(Client c req = Inl e \<longrightarrow>
      ret_resp (Do lib c req respStr) = None \<and> ret_err (Do lib c req respStr) = Some e)
   \<and> (Client c req = Inr r \<and> \<not> (200 \<le> StatusCode r \<and> StatusCode r \<le> 299) \<longrightarrow>
      ret_resp (Do lib c req respStr) = None \<and> ret_err (Do lib c req respStr) \<noteq> None)
   \<and> (Client c req = Inr r \<and> 200 \<le> StatusCode r \<and> StatusCode r \<le> 299
        \<and> json_Decode lib (Response.Body r) d = (d', Some e) \<longrightarrow>
      ret_resp (Do lib c req (Some d)) = Some r \<and> ret_err (Do lib c req (Some d)) = Some e
      \<and> dest (Do lib c req (Some d)) = Some d')"
  by (auto simp: Do_def)

theorem Do_failure_classes_witness:
  "Client unreachable profile_request = Inl (NetError ''dial tcp: connection refused'')
   \<and> ret_resp (Do (golib decode_ActivitySummary) unreachable profile_request
        (Some zero_ActivitySummary)) = None
   \<and> ret_err (Do (golib decode_ActivitySummary) unreachable profile_request
        (Some zero_ActivitySummary)) = Some (NetError ''dial tcp: connection refused'')
   \<and> Client (stub_server 404 []) profile_request = Inr \<lparr>StatusCode = 404, Response.Body = []\<rparr>
   \<and> \<not> (200 \<le> (404::int) \<and> (404::int) \<le> 299)
   \<and> ret_resp (Do (golib decode_ActivitySummary) (stub_server 404 []) profile_request
        (Some zero_ActivitySummary)) = None
   \<and> ret_err (Do (golib decode_ActivitySummary) (stub_server 404 []) profile_request
        (Some zero_ActivitySummary)) \<noteq> None
   \<and> Client (stub_server 200 mistyped_body) profile_request
       = Inr \<lparr>StatusCode = 200, Response.Body = mistyped_body\<rparr>
   \<and> json_Decode (golib decode_ActivitySummary) mistyped_body zero_ActivitySummary =
       (zero_ActivitySummary\<lparr>Goals := zero_Goals\<lparr>Goals.Steps := 10000\<rparr>\<rparr>, Some UnmarshalTypeError)
   \<and> ret_resp (Do (golib decode_ActivitySummary) (stub_server 200 mistyped_body) profile_request
        (Some zero_ActivitySummary)) = Some \<lparr>StatusCode = 200, Response.Body = mistyped_body\<rparr>
   \<and> ret_err (Do (golib decode_ActivitySummary) (stub_server 200 mistyped_body) profile_request
        (Some zero_ActivitySummary)) = Some UnmarshalTypeError
   \<and> dest (Do (golib decode_ActivitySummary) (stub_server 200 mistyped_body) profile_request
        (Some zero_ActivitySummary))
       = Some (zero_ActivitySummary\<lparr>Goals := zero_Goals\<lparr>Goals.Steps := 10000\<rparr>\<rparr>)"
proof -
  note a = unreachable_fails [of profile_request]
  note b = stub_server_answers [of 404 "[]" profile_request]
  note c = stub_server_answers [of 200 mistyped_body profile_request]
  note d = decode_mistyped_body
  from Do_failure_classes [of unreachable profile_request
      "NetError ''dial tcp: connection refused''"
      "golib decode_ActivitySummary" "Some zero_ActivitySummary"] a
  have 1: "ret_resp (Do (golib decode_ActivitySummary) unreachable profile_request
        (Some zero_ActivitySummary)) = None
   \<and> ret_err (Do (golib decode_ActivitySummary) unreachable profile_request
        (Some zero_ActivitySummary)) = Some (NetError ''dial tcp: connection refused'')"
    by simp
  from Do_failure_classes [of "stub_server 404 []" profile_request _
      "golib decode_ActivitySummary" "Some zero_ActivitySummary"
      "\<lparr>StatusCode = 404, Response.Body = []\<rparr>"] b
  have 2: "ret_resp (Do (golib decode_ActivitySummary) (stub_server 404 []) profile_request
        (Some zero_ActivitySummary)) = None
   \<and> ret_err (Do (golib decode_ActivitySummary) (stub_server 404 []) profile_request
        (Some zero_ActivitySummary)) \<noteq> None"
    by simp
  from Do_failure_classes [of "stub_server 200 mistyped_body" profile_request UnmarshalTypeError
      "golib decode_ActivitySummary" "Some zero_ActivitySummary"
      "\<lparr>StatusCode = 200, Response.Body = mistyped_body\<rparr>" zero_ActivitySummary
      "zero_ActivitySummary\<lparr>Goals := zero_Goals\<lparr>Goals.Steps := 10000\<rparr>\<rparr>"] c d
  have 3: "ret_resp (Do (golib decode_ActivitySummary) (stub_server 200 mistyped_body) profile_request
        (Some zero_ActivitySummary)) = Some \<lparr>StatusCode = 200, Response.Body = mistyped_body\<rparr>
   \<and> ret_err (Do (golib decode_ActivitySummary) (stub_server 200 mistyped_body) profile_request
        (Some zero_ActivitySummary)) = Some UnmarshalTypeError
   \<and> dest (Do (golib decode_ActivitySummary) (stub_server 200 mistyped_body) profile_request
        (Some zero_ActivitySummary))
       = Some (zero_ActivitySummary\<lparr>Goals := zero_Goals\<lparr>Goals.Steps := 10000\<rparr>\<rparr>)"
    by simp
  from a b c d 1 2 3 show ?thesis by simp
qed

section \<open>The request builder\<close>

text \<open>
  Claim C3, as the code has it. Take a client built by \<open>NewClient\<close>, a nil body, a
  method that is an HTTP token (or the empty method, which \<open>http.NewRequest\<close> reads as
  \<open>GET\<close>) and a path such that \<open>url.Parse\<close> accepts the path, and accepts the plain
  concatenation of the base URL string and the path and renders it back unchanged.
  Then \<open>NewRequest\<close> succeeds: the address of the built request equals the base URL
  string concatenated with the path (plain concatenation, no slash added or removed),
  and the request carries the fixed \<open>User-Agent\<close> header.
\<close>

theorem NewRequest_nil_body:
  assumes "method = [] \<or> validMethod method"
    and "url_Parse (golib dec) urlStr = Inr u0"
    and "url_Parse (golib dec) (BASE_URL @ urlStr) = Inr (Rendered (BASE_URL @ urlStr))"
  shows "NewRequest (golib dec) (NewClient transport) method urlStr None =
     Inr \<lparr>Method = (if method = [] then ''GET'' else method),
          URL = Rendered (BASE_URL @ urlStr),
          Header = [(''User-Agent'', [USER_AGENT])], Request.Body = []\<rparr>"
proof -
  from assms(3) have "go_url_Parse (BASE_URL @ urlStr) = Inr (Rendered (BASE_URL @ urlStr))"
    by (simp add: golib_def)
  from go_http_NewRequest_base [OF assms(1) this, of "[]"] assms(2,3)
  show ?thesis
    by (simp add: NewRequest_def NewClient_def baseURL_def golib_def)
qed

theorem NewRequest_nil_body_witness:
  "validMethod ''GET''
   \<and> url_Parse (golib decode_UserProfile) ''/user/-/profile.json''
       = Inr (Rendered ''/user/-/profile.json'')
   \<and> url_Parse (golib decode_UserProfile) (BASE_URL @ ''/user/-/profile.json'')
       = Inr (Rendered (BASE_URL @ ''/user/-/profile.json''))
   \<and> NewRequest (golib decode_UserProfile) (NewClient (Client unreachable)) ''GET''
        ''/user/-/profile.json'' None
       = Inr \<lparr>Method = ''GET'', URL = Rendered (BASE_URL @ ''/user/-/profile.json''),
              Header = [(''User-Agent'', [USER_AGENT])], Request.Body = []\<rparr>"
proof -
  have m: "validMethod ''GET''"
    by code_simp
  have p: "url_Parse (golib decode_UserProfile) ''/user/-/profile.json''
       = Inr (Rendered ''/user/-/profile.json'')"
    by code_simp
  have q: "url_Parse (golib decode_UserProfile) (BASE_URL @ ''/user/-/profile.json'')
       = Inr (Rendered (BASE_URL @ ''/user/-/profile.json''))"
    by code_simp
  from NewRequest_nil_body [OF disjI2 [OF m] p q, of "Client unreachable"]
  show ?thesis using m p q by simp
qed

text \<open>
  The claim as stated fails, each time at a path that \<open>url.Parse\<close> accepts.
  With \<open>GET\<close> and the path \<open>/a b\<close> the request is built, but its address has the
  space escaped and is not the concatenation. With \<open>GET\<close> and the path \<open>a:%zz\<close>
  (an opaque URL on its own) the concatenation does not parse. With a method that is
  not an HTTP token, \<open>http.NewRequest\<close> refuses. And for a client set up by hand
  with the base URL \<open>http://h:\<close>, the concatenation with \<open>/x\<close> parses and is
  rendered back unchanged, but \<open>http.NewRequest\<close> drops the empty port from the
  address.
\<close>

theorem NewRequest_address_counterexample:
  \<open>url_Parse (golib decode_UserProfile) ''/a b'' = Inr (Rendered ''/a%20b'')
   \<and> NewRequest (golib decode_UserProfile) (NewClient (Client unreachable)) ''GET'' ''/a b''
        (None :: payload option)
       = Inr \<lparr>Method = ''GET'', URL = Rendered ''https://api.fitbit.com/1/a%20b'',
              Header = [(''User-Agent'', [''go-fitbit-api:v0.0.1''])], Request.Body = []\<rparr>
   \<and> ''https://api.fitbit.com/1/a%20b'' \<noteq> BASE_URL @ ''/a b''
   \<and> url_Parse (golib decode_UserProfile) ''a:%zz'' = Inr (Rendered ''a:%zz'')
   \<and> NewRequest (golib decode_UserProfile) (NewClient (Client unreachable)) ''GET'' ''a:%zz''
        (None :: payload option)
       = Inl (UrlError ''parse "https://api.fitbit.com/1a:%zz": invalid URL escape "%zz"'')
   \<and> url_Parse (golib decode_UserProfile) ''/user/-/profile.json''
       = Inr (Rendered ''/user/-/profile.json'')
   \<and> NewRequest (golib decode_UserProfile) (NewClient (Client unreachable)) ''BAD METHOD''
        ''/user/-/profile.json'' (None :: payload option)
       = Inl (ErrorString ''net/http: invalid method "BAD METHOD"'')
   \<and> url_Parse (golib decode_UserProfile) ''/x'' = Inr (Rendered ''/x'')
   \<and> url_Parse (golib decode_UserProfile) (url_String (BaseUrl empty_port) @ ''/x'')
       = Inr (Rendered (url_String (BaseUrl empty_port) @ ''/x''))
   \<and> NewRequest (golib decode_UserProfile) empty_port ''GET'' ''/x'' (None :: payload option)
       = Inr \<lparr>Method = ''GET'', URL = Rendered ''http://h/x'',
              Header = [(''User-Agent'', [''go-fitbit-api:v0.0.1''])], Request.Body = []\<rparr>
   \<and> ''http://h/x'' \<noteq> url_String (BaseUrl empty_port) @ ''/x''\<close>
  by code_simp

text \<open>
  Claim C6. When the JSON serialization of a non-nil payload fails, \<open>NewRequest\<close>
  returns an error and no request. The error is the encoder's, or that of \<open>url.Parse\<close>
  on the path or on the concatenated address when the address is refused first: in both
  cases an error of malformed input. The builder makes no network call: its result is
  the same whatever the client's transport would answer.
\<close>

theorem NewRequest_unencodable:
  assumes "json_Encode lib p = Inl e"
  shows "(\<exists>e'. NewRequest lib c method urlStr (Some p) = Inl e'
      \<and> (e' = e \<or> url_Parse lib urlStr = Inl e'
          \<or> url_Parse lib (url_String (BaseUrl c) @ urlStr) = Inl e'))
    \<and> NewRequest lib (c\<lparr>Client := transport\<rparr>) method urlStr (Some p)
        = NewRequest lib c method urlStr (Some p)"
  using assms by (auto simp: NewRequest_def split: sum.splits)

theorem NewRequest_unencodable_witness:
  "json_Encode (golib decode_UserProfile) GoChan
      = Inl (JsonError ''json: unsupported type: chan int'')
   \<and> NewRequest (golib decode_UserProfile) unreachable ''POST'' ''/user/-/profile.json''
        (Some GoChan) = Inl (JsonError ''json: unsupported type: chan int'')
   \<and> NewRequest (golib decode_UserProfile)
        (unreachable\<lparr>Client := Client (stub_server 200 jane_body)\<rparr>)
        ''POST'' ''/user/-/profile.json'' (Some GoChan)
       = NewRequest (golib decode_UserProfile) unreachable ''POST'' ''/user/-/profile.json''
           (Some GoChan)"
proof -
  have h: "json_Encode (golib decode_UserProfile) GoChan
      = Inl (JsonError ''json: unsupported type: chan int'')"
    by (simp add: golib_def)
  have v: "NewRequest (golib decode_UserProfile) unreachable ''POST'' ''/user/-/profile.json''
      (Some GoChan) = Inl (JsonError ''json: unsupported type: chan int'')"
    by code_simp
  from NewRequest_unencodable [OF h, of unreachable "''POST''" "''/user/-/profile.json''"
      "Client (stub_server 200 jane_body)"]
  show ?thesis using h v by simp
qed

section \<open>Closing the response body\<close>

text \<open>
  Claim C2, as the code has it. On every path on which a response is received, the
  body is closed before the call returns: \<open>Close\<close> is the last event on it. Through
  \<open>Do\<close> the body is closed exactly once, also when the status is an error or the
  decoding fails. Through an accessor it is closed exactly once when the accessor
  returns an error; when the accessor returns no error it has called \<open>Close\<close> itself
  after \<open>Do\<close>, so the body is closed twice.
\<close>

theorem body_closed_before_return:
  "(Client c req = Inr r \<longrightarrow>
      last (trace (Do lib c req respStr)) = BodyClose
      \<and> count_list (trace (Do lib c req respStr)) BodyClose = 1)
   \<and> (NewRequest libA c ''GET'' (''/user/-/activities/date/'' @ dayString @ ''.json'') None = Inr reqA
        \<and> Client c reqA = Inr rA \<longrightarrow>
      (case ActivitySummaryForDay libA c dayString of
         (s, e, t) \<Rightarrow> last t = BodyClose
           \<and> count_list t BodyClose = (if e = None then 2 else 1)))
   \<and> (NewRequest libU c ''GET'' ''/user/-/profile.json'' None = Inr reqU
        \<and> Client c reqU = Inr rU \<longrightarrow>
      (case UserProfile libU c of
         (p, e, t) \<Rightarrow> last t = BodyClose
           \<and> count_list t BodyClose = (if e = None then 2 else 1)))"
proof (intro conjI impI)
  assume "Client c req = Inr r"
  from trace_Do_received [OF this, of lib respStr]
  show "last (trace (Do lib c req respStr)) = BodyClose" by auto
next
  assume "Client c req = Inr r"
  from trace_Do_received [OF this, of lib respStr]
  show "count_list (trace (Do lib c req respStr)) BodyClose = 1" by auto
next
  assume a: "NewRequest libA c ''GET'' (''/user/-/activities/date/'' @ dayString @ ''.json'') None = Inr reqA
        \<and> Client c reqA = Inr rA"
  then have "Client c reqA = Inr rA" by simp
  from trace_Do_received [OF this, of libA "Some zero_ActivitySummary"] a
  show "case ActivitySummaryForDay libA c dayString of
         (s, e, t) \<Rightarrow> last t = BodyClose
           \<and> count_list t BodyClose = (if e = None then 2 else 1)"
    by (auto simp: ActivitySummaryForDay_def Let_def split: option.splits)
next
  assume a: "NewRequest libU c ''GET'' ''/user/-/profile.json'' None = Inr reqU
        \<and> Client c reqU = Inr rU"
  then have "Client c reqU = Inr rU" by simp
  from trace_Do_received [OF this, of libU "Some zero_UserProfile"] a
  show "case UserProfile libU c of
         (p, e, t) \<Rightarrow> last t = BodyClose
           \<and> count_list t BodyClose = (if e = None then 2 else 1)"
    by (auto simp: UserProfile_def Let_def split: option.splits)
qed

theorem body_closed_before_return_witness:
  "Client (stub_route activity_address steps_body) profile_request
      = Inr \<lparr>StatusCode = 404, Response.Body = []\<rparr>
   \<and> last (trace (Do (golib decode_UserProfile) (stub_route activity_address steps_body)
        profile_request (Some zero_UserProfile))) = BodyClose
   \<and> count_list (trace (Do (golib decode_UserProfile) (stub_route activity_address steps_body)
        profile_request (Some zero_UserProfile))) BodyClose = 1
   \<and> NewRequest (golib decode_ActivitySummary) (stub_route activity_address steps_body) ''GET''
        ''/user/-/activities/date/2013-06-27.json'' (None :: payload option) = Inr activity_request
   \<and> Client (stub_route activity_address steps_body) activity_request
      = Inr \<lparr>StatusCode = 200, Response.Body = steps_body\<rparr>
   \<and> (case ActivitySummaryForDay (golib decode_ActivitySummary)
          (stub_route activity_address steps_body) ''2013-06-27'' of
         (s, e, t) \<Rightarrow> last t = BodyClose \<and> count_list t BodyClose = (if e = None then 2 else 1))
   \<and> NewRequest (golib decode_UserProfile) (stub_route activity_address steps_body) ''GET''
        ''/user/-/profile.json'' (None :: payload option) = Inr profile_request
   \<and> (case UserProfile (golib decode_UserProfile) (stub_route activity_address steps_body) of
         (p, e, t) \<Rightarrow> last t = BodyClose \<and> count_list t BodyClose = (if e = None then 2 else 1))"
proof -
  have h1: "Client (stub_route activity_address steps_body) profile_request
      = Inr \<lparr>StatusCode = 404, Response.Body = []\<rparr>"
    by code_simp
  have h2: "NewRequest (golib decode_ActivitySummary) (stub_route activity_address steps_body) ''GET''
        ''/user/-/activities/date/2013-06-27.json'' (None :: payload option) = Inr activity_request"
    by code_simp
  have h3: "Client (stub_route activity_address steps_body) activity_request
      = Inr \<lparr>StatusCode = 200, Response.Body = steps_body\<rparr>"
    by code_simp
  have h4: "NewRequest (golib decode_UserProfile) (stub_route activity_address steps_body) ''GET''
        ''/user/-/profile.json'' (None :: payload option) = Inr profile_request"
    by code_simp
  show ?thesis
    using h1 h2 h3 h4
      body_closed_before_return [where c = "stub_route activity_address steps_body"
        and req = profile_request and r = "\<lparr>StatusCode = 404, Response.Body = []\<rparr>"
        and lib = "golib decode_UserProfile" and respStr = "Some zero_UserProfile"
        and libA = "golib decode_ActivitySummary" and dayString = "''2013-06-27''"
        and reqA = activity_request and rA = "\<lparr>StatusCode = 200, Response.Body = steps_body\<rparr>"
        and libU = "golib decode_UserProfile" and reqU = profile_request
        and rU = "\<lparr>StatusCode = 404, Response.Body = []\<rparr>"]
    by simp
qed

text \<open>
  The claim as stated fails on the path without an error: the accessor closes the body
  that \<open>Do\<close> has already closed.
\<close>

theorem accessor_closes_twice_counterexample:
  "count_list (snd (snd (ActivitySummaryForDay (golib decode_ActivitySummary)
      (stub_route activity_address steps_body)
      ''2013-06-27''))) BodyClose = 2
   \<and> fst (snd (ActivitySummaryForDay (golib decode_ActivitySummary)
      (stub_route activity_address steps_body)
      ''2013-06-27'')) = None"
  by code_simp

section \<open>The accessors\<close>

text \<open>
  Claim C7, as the code has it. An accessor that fails returns the error of the
  builder or of the executor unchanged. When the builder fails, the send fails or the
  status is outside [200, 299], the record beside the error is the zero value. When
  the decoder fails, the record is exactly what the decoder left in the destination.
  An accessor returns an error only in these cases: when the builder or the executor
  returned one.
\<close>

theorem accessor_failure:
  "(NewRequest libA c ''GET'' (''/user/-/activities/date/'' @ dayString @ ''.json'') None = Inl ea
      \<longrightarrow> ActivitySummaryForDay libA c dayString = (zero_ActivitySummary, Some ea, []))
   \<and> (NewRequest libA c ''GET'' (''/user/-/activities/date/'' @ dayString @ ''.json'') None = Inr reqb
        \<and> Client c reqb = Inl eb
      \<longrightarrow> ActivitySummaryForDay libA c dayString = (zero_ActivitySummary, Some eb, []))
   \<and> (NewRequest libA c ''GET'' (''/user/-/activities/date/'' @ dayString @ ''.json'') None = Inr reqc
        \<and> Client c reqc = Inr rc \<and> \<not> (200 \<le> StatusCode rc \<and> StatusCode rc \<le> 299)
      \<longrightarrow> ActivitySummaryForDay libA c dayString =
            (zero_ActivitySummary,
             Some (errors_New (''http request failed, resp: '' @ fmt_GoSyntax libA rc)),
             [BodyClose]))
   \<and> (NewRequest libA c ''GET'' (''/user/-/activities/date/'' @ dayString @ ''.json'') None = Inr reqd
        \<and> Client c reqd = Inr rd \<and> 200 \<le> StatusCode rd \<and> StatusCode rd \<le> 299
        \<and> json_Decode libA (Response.Body rd) zero_ActivitySummary = (sd, Some ed)
      \<longrightarrow> ActivitySummaryForDay libA c dayString = (sd, Some ed, [BodyDecode, BodyClose]))
   \<and> (fst (snd (ActivitySummaryForDay libA c dayString)) \<noteq> None
      \<longrightarrow> (\<exists>e. NewRequest libA c ''GET'' (''/user/-/activities/date/'' @ dayString @ ''.json'') None = Inl e)
          \<or> (\<exists>req. NewRequest libA c ''GET'' (''/user/-/activities/date/'' @ dayString @ ''.json'') None = Inr req
                \<and> ret_err (Do libA c req (Some zero_ActivitySummary)) \<noteq> None))
   \<and> (NewRequest libU c ''GET'' ''/user/-/profile.json'' None = Inl eu
      \<longrightarrow> UserProfile libU c = (zero_UserProfile, Some eu, []))
   \<and> (NewRequest libU c ''GET'' ''/user/-/profile.json'' None = Inr reqv \<and> Client c reqv = Inl ev
      \<longrightarrow> UserProfile libU c = (zero_UserProfile, Some ev, []))
   \<and> (NewRequest libU c ''GET'' ''/user/-/profile.json'' None = Inr reqw
        \<and> Client c reqw = Inr rw \<and> \<not> (200 \<le> StatusCode rw \<and> StatusCode rw \<le> 299)
      \<longrightarrow> UserProfile libU c =
            (zero_UserProfile,
             Some (errors_New (''http request failed, resp: '' @ fmt_GoSyntax libU rw)),
             [BodyClose]))
   \<and> (NewRequest libU c ''GET'' ''/user/-/profile.json'' None = Inr reqx
        \<and> Client c reqx = Inr rx \<and> 200 \<le> StatusCode rx \<and> StatusCode rx \<le> 299
        \<and> json_Decode libU (Response.Body rx) zero_UserProfile = (px, Some ex)
      \<longrightarrow> UserProfile libU c = (px, Some ex, [BodyDecode, BodyClose]))
   \<and> (fst (snd (UserProfile libU c)) \<noteq> None
      \<longrightarrow> (\<exists>e. NewRequest libU c ''GET'' ''/user/-/profile.json'' None = Inl e)
          \<or> (\<exists>req. NewRequest libU c ''GET'' ''/user/-/profile.json'' None = Inr req
                \<and> ret_err (Do libU c req (Some zero_UserProfile)) \<noteq> None))"
proof (intro conjI impI)
  show "fst (snd (ActivitySummaryForDay libA c dayString)) \<noteq> None \<Longrightarrow>
      (\<exists>e. NewRequest libA c ''GET'' (''/user/-/activities/date/'' @ dayString @ ''.json'') None = Inl e)
      \<or> (\<exists>req. NewRequest libA c ''GET'' (''/user/-/activities/date/'' @ dayString @ ''.json'') None = Inr req
            \<and> ret_err (Do libA c req (Some zero_ActivitySummary)) \<noteq> None)"
    by (auto simp: ActivitySummaryForDay_def Let_def split: sum.splits option.splits)
  show "fst (snd (UserProfile libU c)) \<noteq> None \<Longrightarrow>
      (\<exists>e. NewRequest libU c ''GET'' ''/user/-/profile.json'' None = Inl e)
      \<or> (\<exists>req. NewRequest libU c ''GET'' ''/user/-/profile.json'' None = Inr req
            \<and> ret_err (Do libU c req (Some zero_UserProfile)) \<noteq> None)"
    by (auto simp: UserProfile_def Let_def split: sum.splits option.splits)
qed (auto simp: ActivitySummaryForDay_def UserProfile_def Do_def Let_def)

theorem accessor_failure_witness:
  "NewRequest (golib decode_ActivitySummary) unreachable ''GET'' (''/user/-/activities/date/'' @ ''%zz'' @ ''.json'') (None :: payload option) = Inl (url_Error ''/user/-/activities/date/%zz.json'' (EscapeError ''%zz''))
   \<and> ActivitySummaryForDay (golib decode_ActivitySummary) unreachable ''%zz'' = (zero_ActivitySummary, Some (url_Error ''/user/-/activities/date/%zz.json'' (EscapeError ''%zz'')), [])
   \<and> NewRequest (golib decode_ActivitySummary) unreachable ''GET'' (''/user/-/activities/date/'' @ ''2013-06-27'' @ ''.json'') (None :: payload option) = Inr activity_request
   \<and> Client unreachable activity_request = Inl (NetError ''dial tcp: connection refused'')
   \<and> ActivitySummaryForDay (golib decode_ActivitySummary) unreachable ''2013-06-27'' = (zero_ActivitySummary, Some (NetError ''dial tcp: connection refused''), [])
   \<and> NewRequest (golib decode_ActivitySummary) (stub_server 404 []) ''GET'' (''/user/-/activities/date/'' @ ''2013-06-27'' @ ''.json'') (None :: payload option) = Inr activity_request
   \<and> Client (stub_server 404 []) activity_request = Inr \<lparr>StatusCode = 404, Response.Body = []\<rparr>
   \<and> \<not> (200 \<le> (404::int) \<and> (404::int) \<le> 299)
   \<and> ActivitySummaryForDay (golib decode_ActivitySummary) (stub_server 404 []) ''2013-06-27'' = (zero_ActivitySummary, Some (errors_New (''http request failed, resp: '' @ fmt_GoSyntax (golib decode_ActivitySummary) \<lparr>StatusCode = 404, Response.Body = []\<rparr>)), [BodyClose])
   \<and> NewRequest (golib decode_ActivitySummary) (stub_route activity_address mistyped_body) ''GET'' (''/user/-/activities/date/'' @ ''2013-06-27'' @ ''.json'') (None :: payload option) = Inr activity_request
   \<and> Client (stub_route activity_address mistyped_body) activity_request = Inr \<lparr>StatusCode = 200, Response.Body = mistyped_body\<rparr>
   \<and> json_Decode (golib decode_ActivitySummary) mistyped_body zero_ActivitySummary = ((zero_ActivitySummary\<lparr>Goals := zero_Goals\<lparr>Goals.Steps := 10000\<rparr>\<rparr>), Some UnmarshalTypeError)
   \<and> ActivitySummaryForDay (golib decode_ActivitySummary) (stub_route activity_address mistyped_body) ''2013-06-27'' = ((zero_ActivitySummary\<lparr>Goals := zero_Goals\<lparr>Goals.Steps := 10000\<rparr>\<rparr>), Some UnmarshalTypeError, [BodyDecode, BodyClose])
   \<and> NewRequest (golib decode_UserProfile) misconfigured ''GET'' ''/user/-/profile.json'' (None :: payload option) = Inl (url_Error ''http://h:8x/user/-/profile.json'' (''invalid port '' @ Quote '':8x'' @ '' after host''))
   \<and> UserProfile (golib decode_UserProfile) misconfigured = (zero_UserProfile, Some (url_Error ''http://h:8x/user/-/profile.json'' (''invalid port '' @ Quote '':8x'' @ '' after host'')), [])
   \<and> NewRequest (golib decode_UserProfile) unreachable ''GET'' ''/user/-/profile.json'' (None :: payload option) = Inr profile_request
   \<and> Client unreachable profile_request = Inl (NetError ''dial tcp: connection refused'')
   \<and> UserProfile (golib decode_UserProfile) unreachable = (zero_UserProfile, Some (NetError ''dial tcp: connection refused''), [])
   \<and> NewRequest (golib decode_UserProfile) (stub_server 404 []) ''GET'' ''/user/-/profile.json'' (None :: payload option) = Inr profile_request
   \<and> Client (stub_server 404 []) profile_request = Inr \<lparr>StatusCode = 404, Response.Body = []\<rparr>
   \<and> UserProfile (golib decode_UserProfile) (stub_server 404 []) = (zero_UserProfile, Some (errors_New (''http request failed, resp: '' @ fmt_GoSyntax (golib decode_UserProfile) \<lparr>StatusCode = 404, Response.Body = []\<rparr>)), [BodyClose])
   \<and> NewRequest (golib decode_UserProfile) (stub_server 200 mistyped_profile_body) ''GET'' ''/user/-/profile.json'' (None :: payload option) = Inr profile_request
   \<and> Client (stub_server 200 mistyped_profile_body) profile_request = Inr \<lparr>StatusCode = 200, Response.Body = mistyped_profile_body\<rparr>
   \<and> json_Decode (golib decode_UserProfile) mistyped_profile_body zero_UserProfile = ((zero_UserProfile\<lparr>User := zero_User\<lparr>FullName := ''Jane Doe''\<rparr>\<rparr>), Some UnmarshalTypeError)
   \<and> UserProfile (golib decode_UserProfile) (stub_server 200 mistyped_profile_body) = ((zero_UserProfile\<lparr>User := zero_User\<lparr>FullName := ''Jane Doe''\<rparr>\<rparr>), Some UnmarshalTypeError, [BodyDecode, BodyClose])
   \<and> fst (snd (ActivitySummaryForDay (golib decode_ActivitySummary) (stub_route activity_address mistyped_body) ''2013-06-27'')) \<noteq> None
   \<and> ((\<exists>e. NewRequest (golib decode_ActivitySummary) (stub_route activity_address mistyped_body) ''GET'' (''/user/-/activities/date/'' @ ''2013-06-27'' @ ''.json'') (None :: payload option) = Inl e)
      \<or> (\<exists>req. NewRequest (golib decode_ActivitySummary) (stub_route activity_address mistyped_body) ''GET'' (''/user/-/activities/date/'' @ ''2013-06-27'' @ ''.json'') (None :: payload option) = Inr req
            \<and> ret_err (Do (golib decode_ActivitySummary) (stub_route activity_address mistyped_body) req (Some zero_ActivitySummary)) \<noteq> None))
   \<and> fst (snd (UserProfile (golib decode_UserProfile) (stub_server 200 mistyped_profile_body))) \<noteq> None
   \<and> ((\<exists>e. NewRequest (golib decode_UserProfile) (stub_server 200 mistyped_profile_body) ''GET'' ''/user/-/profile.json'' (None :: payload option) = Inl e)
      \<or> (\<exists>req. NewRequest (golib decode_UserProfile) (stub_server 200 mistyped_profile_body) ''GET'' ''/user/-/profile.json'' (None :: payload option) = Inr req
            \<and> ret_err (Do (golib decode_UserProfile) (stub_server 200 mistyped_profile_body) req (Some zero_UserProfile)) \<noteq> None))"
proof -
  have a1h0: "NewRequest (golib decode_ActivitySummary) unreachable ''GET'' (''/user/-/activities/date/'' @ ''%zz'' @ ''.json'') (None :: payload option) = Inl (url_Error ''/user/-/activities/date/%zz.json'' (EscapeError ''%zz''))"
    by code_simp
  have a1: "ActivitySummaryForDay (golib decode_ActivitySummary) unreachable ''%zz'' = (zero_ActivitySummary, Some (url_Error ''/user/-/activities/date/%zz.json'' (EscapeError ''%zz'')), [])"
    using accessor_failure [where libA = "golib decode_ActivitySummary" and c = "unreachable" and dayString = "''%zz''" and ea = "url_Error ''/user/-/activities/date/%zz.json'' (EscapeError ''%zz'')", THEN conjunct1] a1h0
    by simp
  have a2h0: "NewRequest (golib decode_ActivitySummary) unreachable ''GET'' (''/user/-/activities/date/'' @ ''2013-06-27'' @ ''.json'') (None :: payload option) = Inr activity_request"
    by code_simp
  have a2h1: "Client unreachable activity_request = Inl (NetError ''dial tcp: connection refused'')"
    by code_simp
  have a2: "ActivitySummaryForDay (golib decode_ActivitySummary) unreachable ''2013-06-27'' = (zero_ActivitySummary, Some (NetError ''dial tcp: connection refused''), [])"
    using accessor_failure [where libA = "golib decode_ActivitySummary" and c = "unreachable" and dayString = "''2013-06-27''" and reqb = "activity_request" and eb = "NetError ''dial tcp: connection refused''", THEN conjunct2, THEN conjunct1] a2h0 a2h1
    by simp
  have a3h0: "NewRequest (golib decode_ActivitySummary) (stub_server 404 []) ''GET'' (''/user/-/activities/date/'' @ ''2013-06-27'' @ ''.json'') (None :: payload option) = Inr activity_request"
    by code_simp
  have a3h1: "Client (stub_server 404 []) activity_request = Inr \<lparr>StatusCode = 404, Response.Body = []\<rparr>"
    by code_simp
  have a3h2: "\<not> (200 \<le> (404::int) \<and> (404::int) \<le> 299)"
    by code_simp
  have a3: "ActivitySummaryForDay (golib decode_ActivitySummary) (stub_server 404 []) ''2013-06-27'' = (zero_ActivitySummary, Some (errors_New (''http request failed, resp: '' @ fmt_GoSyntax (golib decode_ActivitySummary) \<lparr>StatusCode = 404, Response.Body = []\<rparr>)), [BodyClose])"
    using accessor_failure [where libA = "golib decode_ActivitySummary" and c = "stub_server 404 []" and dayString = "''2013-06-27''" and reqc = "activity_request" and rc = "\<lparr>StatusCode = 404, Response.Body = []\<rparr>", THEN conjunct2, THEN conjunct2, THEN conjunct1] a3h0 a3h1 a3h2
    by simp
  have a4h0: "NewRequest (golib decode_ActivitySummary) (stub_route activity_address mistyped_body) ''GET'' (''/user/-/activities/date/'' @ ''2013-06-27'' @ ''.json'') (None :: payload option) = Inr activity_request"
    by code_simp
  have a4h1: "Client (stub_route activity_address mistyped_body) activity_request = Inr \<lparr>StatusCode = 200, Response.Body = mistyped_body\<rparr>"
    by code_simp
  have a4h2: "json_Decode (golib decode_ActivitySummary) mistyped_body zero_ActivitySummary = ((zero_ActivitySummary\<lparr>Goals := zero_Goals\<lparr>Goals.Steps := 10000\<rparr>\<rparr>), Some UnmarshalTypeError)"
    by code_simp
  have a4: "ActivitySummaryForDay (golib decode_ActivitySummary) (stub_route activity_address mistyped_body) ''2013-06-27'' = ((zero_ActivitySummary\<lparr>Goals := zero_Goals\<lparr>Goals.Steps := 10000\<rparr>\<rparr>), Some UnmarshalTypeError, [BodyDecode, BodyClose])"
    using accessor_failure [where libA = "golib decode_ActivitySummary" and c = "stub_route activity_address mistyped_body" and dayString = "''2013-06-27''" and reqd = "activity_request" and rd = "\<lparr>StatusCode = 200, Response.Body = mistyped_body\<rparr>" and sd = "zero_ActivitySummary\<lparr>Goals := zero_Goals\<lparr>Goals.Steps := 10000\<rparr>\<rparr>" and ed = "UnmarshalTypeError", THEN conjunct2, THEN conjunct2, THEN conjunct2, THEN conjunct1] a4h0 a4h1 a4h2
    by simp
  have u5h0: "NewRequest (golib decode_UserProfile) misconfigured ''GET'' ''/user/-/profile.json'' (None :: payload option) = Inl (url_Error ''http://h:8x/user/-/profile.json'' (''invalid port '' @ Quote '':8x'' @ '' after host''))"
    by code_simp
  have u5: "UserProfile (golib decode_UserProfile) misconfigured = (zero_UserProfile, Some (url_Error ''http://h:8x/user/-/profile.json'' (''invalid port '' @ Quote '':8x'' @ '' after host'')), [])"
    using accessor_failure [where libU = "golib decode_UserProfile" and c = "misconfigured" and eu = "url_Error ''http://h:8x/user/-/profile.json'' (''invalid port '' @ Quote '':8x'' @ '' after host'')", THEN conjunct2, THEN conjunct2, THEN conjunct2, THEN conjunct2, THEN conjunct2, THEN conjunct1] u5h0
    by simp
  have u6h0: "NewRequest (golib decode_UserProfile) unreachable ''GET'' ''/user/-/profile.json'' (None :: payload option) = Inr profile_request"
    by code_simp
  have u6h1: "Client unreachable profile_request = Inl (NetError ''dial tcp: connection refused'')"
    by code_simp
  have u6: "UserProfile (golib decode_UserProfile) unreachable = (zero_UserProfile, Some (NetError ''dial tcp: connection refused''), [])"
    using accessor_failure [where libU = "golib decode_UserProfile" and c = "unreachable" and reqv = "profile_request" and ev = "NetError ''dial tcp: connection refused''", THEN conjunct2, THEN conjunct2, THEN conjunct2, THEN conjunct2, THEN conjunct2, THEN conjunct2, THEN conjunct1] u6h0 u6h1
    by simp
  have u7h0: "NewRequest (golib decode_UserProfile) (stub_server 404 []) ''GET'' ''/user/-/profile.json'' (None :: payload option) = Inr profile_request"
    by code_simp
  have u7h1: "Client (stub_server 404 []) profile_request = Inr \<lparr>StatusCode = 404, Response.Body = []\<rparr>"
    by code_simp
  have u7: "UserProfile (golib decode_UserProfile) (stub_server 404 []) = (zero_UserProfile, Some (errors_New (''http request failed, resp: '' @ fmt_GoSyntax (golib decode_UserProfile) \<lparr>StatusCode = 404, Response.Body = []\<rparr>)), [BodyClose])"
    using accessor_failure [where libU = "golib decode_UserProfile" and c = "stub_server 404 []" and reqw = "profile_request" and rw = "\<lparr>StatusCode = 404, Response.Body = []\<rparr>", THEN conjunct2, THEN conjunct2, THEN conjunct2, THEN conjunct2, THEN conjunct2, THEN conjunct2, THEN conjunct2, THEN conjunct1] u7h0 u7h1
    by simp
  have u8h0: "NewRequest (golib decode_UserProfile) (stub_server 200 mistyped_profile_body) ''GET'' ''/user/-/profile.json'' (None :: payload option) = Inr profile_request"
    by code_simp
  have u8h1: "Client (stub_server 200 mistyped_profile_body) profile_request = Inr \<lparr>StatusCode = 200, Response.Body = mistyped_profile_body\<rparr>"
    by code_simp
  have u8h2: "json_Decode (golib decode_UserProfile) mistyped_profile_body zero_UserProfile = ((zero_UserProfile\<lparr>User := zero_User\<lparr>FullName := ''Jane Doe''\<rparr>\<rparr>), Some UnmarshalTypeError)"
    by code_simp
  have u8: "UserProfile (golib decode_UserProfile) (stub_server 200 mistyped_profile_body) = ((zero_UserProfile\<lparr>User := zero_User\<lparr>FullName := ''Jane Doe''\<rparr>\<rparr>), Some UnmarshalTypeError, [BodyDecode, BodyClose])"
    using accessor_failure [where libU = "golib decode_UserProfile" and c = "stub_server 200 mistyped_profile_body" and reqx = "profile_request" and rx = "\<lparr>StatusCode = 200, Response.Body = mistyped_profile_body\<rparr>" and px = "zero_UserProfile\<lparr>User := zero_User\<lparr>FullName := ''Jane Doe''\<rparr>\<rparr>" and ex = "UnmarshalTypeError", THEN conjunct2, THEN conjunct2, THEN conjunct2, THEN conjunct2, THEN conjunct2, THEN conjunct2, THEN conjunct2, THEN conjunct2, THEN conjunct1] u8h0 u8h1 u8h2
    by simp
  have a5h: "fst (snd (ActivitySummaryForDay (golib decode_ActivitySummary) (stub_route activity_address mistyped_body) ''2013-06-27'')) \<noteq> None"
    by code_simp
  have a5: "((\<exists>e. NewRequest (golib decode_ActivitySummary) (stub_route activity_address mistyped_body) ''GET'' (''/user/-/activities/date/'' @ ''2013-06-27'' @ ''.json'') (None :: payload option) = Inl e)
      \<or> (\<exists>req. NewRequest (golib decode_ActivitySummary) (stub_route activity_address mistyped_body) ''GET'' (''/user/-/activities/date/'' @ ''2013-06-27'' @ ''.json'') (None :: payload option) = Inr req
            \<and> ret_err (Do (golib decode_ActivitySummary) (stub_route activity_address mistyped_body) req (Some zero_ActivitySummary)) \<noteq> None))"
    using accessor_failure [where libA = "golib decode_ActivitySummary" and c = "stub_route activity_address mistyped_body" and dayString = "''2013-06-27''", THEN conjunct2, THEN conjunct2, THEN conjunct2, THEN conjunct2, THEN conjunct1] a5h
    by simp
  have u9h: "fst (snd (UserProfile (golib decode_UserProfile) (stub_server 200 mistyped_profile_body))) \<noteq> None"
    by code_simp
  have u9: "((\<exists>e. NewRequest (golib decode_UserProfile) (stub_server 200 mistyped_profile_body) ''GET'' ''/user/-/profile.json'' (None :: payload option) = Inl e)
      \<or> (\<exists>req. NewRequest (golib decode_UserProfile) (stub_server 200 mistyped_profile_body) ''GET'' ''/user/-/profile.json'' (None :: payload option) = Inr req
            \<and> ret_err (Do (golib decode_UserProfile) (stub_server 200 mistyped_profile_body) req (Some zero_UserProfile)) \<noteq> None))"
    using accessor_failure [where libU = "golib decode_UserProfile" and c = "stub_server 200 mistyped_profile_body", THEN conjunct2, THEN conjunct2, THEN conjunct2, THEN conjunct2, THEN conjunct2, THEN conjunct2, THEN conjunct2, THEN conjunct2, THEN conjunct2] u9h
    by simp
  show ?thesis
    using a5h a5 u9h u9 a1h0 a2h0 a2h1 a3h0 a3h1 a3h2 a4h0 a4h1 a4h2 u5h0 u6h0 u6h1 u7h0 u7h1 u8h0 u8h1 u8h2 a1 a2 a3 a4 u5 u6 u7 u8
    by simp
qed

text \<open>
  The claim as stated fails when the decoder fails after storing a field: the accessor
  returns the error with a record that is not the zero value.
\<close>

theorem accessor_partial_record_counterexample:
  "ActivitySummaryForDay (golib decode_ActivitySummary)
      (stub_route activity_address mistyped_body)
      ''2013-06-27''
    = (zero_ActivitySummary\<lparr>Goals := zero_Goals\<lparr>Goals.Steps := 10000\<rparr>\<rparr>,
       Some UnmarshalTypeError, [BodyDecode, BodyClose])
   \<and> zero_ActivitySummary\<lparr>Goals := zero_Goals\<lparr>Goals.Steps := 10000\<rparr>\<rparr> \<noteq> zero_ActivitySummary"
  by code_simp

text \<open>
  Claim C8. \<open>ActivitySummaryForDay\<close> on \<open>2013-06-27\<close>, against a server that answers
  the \<open>GET\<close> of the day's address with status 200 and the body
  \<open>{"goals":{"steps":10000},"summary":{"steps":8000}}\<close>, returns a record whose
  \<open>Goals.Steps\<close> is 10000 and whose \<open>Summary.Steps\<close> is 8000, and no error.
\<close>

theorem ActivitySummaryForDay_steps:
  "case ActivitySummaryForDay (golib decode_ActivitySummary)
      (stub_route activity_address steps_body)
      ''2013-06-27'' of
     (s, e, t) \<Rightarrow> Goals.Steps (Goals s) = 10000 \<and> Summary.Steps (Summary s) = 8000 \<and> e = None"
  by code_simp

end
